theory Spec2Isabelle
  imports Complex_Main "HOL-Library.Sublist"
begin

section \<open>JavaScript values used by the compiler\<close>

text \<open>
  The compiler in \<^verbatim>\<open>src/compiler/jsgen.js\<close> folds constants at compile time with the
  language's own coercions: unary plus, \<^verbatim>\<open>Number.prototype.toString\<close>, \<^verbatim>\<open>Number.isNaN\<close>,
  \<^verbatim>\<open>Object.is\<close>, \<^verbatim>\<open>String.prototype.trim\<close> and \<^verbatim>\<open>JSON.stringify\<close>. This section
  models those primitives after ECMA-262.

  A Number is an IEEE 754 binary64 value. \<open>JFinite neg m e\<close> stands for
  \<open>(-1)^neg * m * 2^e\<close>, kept canonical: \<open>m\<close> is odd, or \<open>m = 0\<close> and \<open>e = 0\<close>
  (the two zeros). Strings are lists of 8-bit code units (the Latin-1 range of the
  language's UTF-16 strings).
\<close>

datatype jsnum = JNaN | JInfinity bool | JFinite bool int int

datatype jsval = JString string | JNumber jsnum | JBoolean bool

subsection \<open>Rounding an exact fraction to binary64\<close>

function strip2 :: "int \<Rightarrow> int \<Rightarrow> int \<times> int" where
  "strip2 m e = (if m \<noteq> 0 \<and> even m then strip2 (m div 2) (e + 1) else (m, e))"
  by pat_completeness auto
termination
  by (relation "measure (\<lambda>(m, e). nat \<bar>m\<bar>)") auto

declare strip2.simps [simp del]

definition mk_finite :: "bool \<Rightarrow> int \<Rightarrow> int \<Rightarrow> jsnum" where
  "mk_finite neg m e =
     (if m = 0 then JFinite neg 0 0
      else case strip2 m e of (m', e') \<Rightarrow> JFinite neg m' e')"

function ilog2 :: "int \<Rightarrow> int" where
  "ilog2 n = (if n < 2 then 0 else 1 + ilog2 (n div 2))"
  by pat_completeness auto
termination
  by (relation "measure nat") auto

declare ilog2.simps [simp del]

text \<open>\<open>shift_frac a b k\<close> is the fraction \<open>(a / b) / 2^k\<close>, for any integer \<open>k\<close>.\<close>

definition shift_frac :: "int \<Rightarrow> int \<Rightarrow> int \<Rightarrow> int \<times> int" where
  "shift_frac a b k = (if 0 \<le> k then (a, b * 2 ^ nat k) else (a * 2 ^ nat (- k), b))"

definition round_half_even :: "int \<Rightarrow> int \<Rightarrow> int" where
  "round_half_even a b =
     (let q = a div b; r = a mod b
      in if 2 * r < b then q
         else if b < 2 * r then q + 1
         else if even q then q else q + 1)"

text \<open>
  \<open>to_double neg a b\<close> is the Number value for the fraction \<open>a / b\<close> (\<open>0 \<le> a\<close>,
  \<open>0 < b\<close>) with the sign \<open>neg\<close>: round to nearest, ties to even, 53 bits of
  precision, gradual underflow below \<open>2^-1022\<close>, overflow to infinity from \<open>2^1024\<close>.
\<close>

definition to_double :: "bool \<Rightarrow> int \<Rightarrow> int \<Rightarrow> jsnum" where
  "to_double neg a b =
     (if a = 0 then JFinite neg 0 0
      else
        let est = ilog2 a - ilog2 b;
            p = (case shift_frac a b est of (a', b') \<Rightarrow> if b' \<le> a' then est else est - 1);
            ex = max (p - 52) (- 1074);
            M = (case shift_frac a b ex of (n, d) \<Rightarrow> round_half_even n d)
        in if 971 < ex \<or> (ex = 971 \<and> 2 ^ 53 \<le> M) then JInfinity neg
           else mk_finite neg M ex)"

text \<open>The Number value for the decimal \<open>s * 10^j\<close>.\<close>

definition dec_to_double :: "bool \<Rightarrow> int \<Rightarrow> int \<Rightarrow> jsnum" where
  "dec_to_double neg s j =
     (if 0 \<le> j then to_double neg (s * 10 ^ nat j) 1 else to_double neg s (10 ^ nat (- j)))"

subsection \<open>StringToNumber (unary plus on a string)\<close>

definition isStrWhiteSpaceChar :: "char \<Rightarrow> bool" where
  "isStrWhiteSpaceChar c = ((of_char c :: int) \<in> set [9, 10, 11, 12, 13, 32, 160])"

definition trim :: "string \<Rightarrow> string" where
  "trim s = rev (dropWhile isStrWhiteSpaceChar (rev (dropWhile isStrWhiteSpaceChar s)))"

definition isDecimalDigit :: "char \<Rightarrow> bool" where
  "isDecimalDigit c = (48 \<le> (of_char c :: int) \<and> (of_char c :: int) \<le> 57)"

definition isHexDigit :: "char \<Rightarrow> bool" where
  "isHexDigit c =
     (let n = (of_char c :: int)
      in (48 \<le> n \<and> n \<le> 57) \<or> (97 \<le> n \<and> n \<le> 102) \<or> (65 \<le> n \<and> n \<le> 70))"

definition isOctalDigit :: "char \<Rightarrow> bool" where
  "isOctalDigit c = (48 \<le> (of_char c :: int) \<and> (of_char c :: int) \<le> 55)"

definition isBinaryDigit :: "char \<Rightarrow> bool" where
  "isBinaryDigit c = (c = CHR ''0'' \<or> c = CHR ''1'')"

definition digit_value :: "char \<Rightarrow> int" where
  "digit_value c =
     (let n = (of_char c :: int)
      in if n \<le> 57 then n - 48 else if 97 \<le> n then n - 87 else n - 55)"

primrec radix_value :: "int \<Rightarrow> int \<Rightarrow> string \<Rightarrow> int" where
  "radix_value b acc [] = acc"
| "radix_value b acc (c # cs) = radix_value b (acc * b + digit_value c) cs"

definition parse_digits :: "string \<Rightarrow> int option" where
  "parse_digits ds =
     (if ds \<noteq> [] \<and> list_all isDecimalDigit ds then Some (radix_value 10 0 ds) else None)"

text \<open>SignedInteger of an ExponentPart.\<close>

definition parse_exponent :: "string \<Rightarrow> int option" where
  "parse_exponent s =
     (case s of
        [] \<Rightarrow> None
      | c # r \<Rightarrow>
          if c = CHR ''+'' then parse_digits r
          else if c = CHR ''-'' then map_option uminus (parse_digits r)
          else parse_digits s)"

text \<open>
  StrUnsignedDecimalLiteral other than \<^verbatim>\<open>Infinity\<close>: the result \<open>(m, j)\<close> is the exact
  value \<open>m * 10^j\<close>.
\<close>

definition parse_unsigned_decimal :: "string \<Rightarrow> (int \<times> int) option" where
  "parse_unsigned_decimal s =
     (let ip = takeWhile isDecimalDigit s;
          r1 = dropWhile isDecimalDigit s;
          hasDot = (r1 \<noteq> [] \<and> hd r1 = CHR ''.'');
          fp = (if hasDot then takeWhile isDecimalDigit (tl r1) else []);
          r2 = (if hasDot then dropWhile isDecimalDigit (tl r1) else r1);
          m = radix_value 10 0 (ip @ fp)
      in if ip = [] \<and> fp = [] then None
         else case r2 of
            [] \<Rightarrow> Some (m, - int (length fp))
          | c # r \<Rightarrow>
              if c = CHR ''e'' \<or> c = CHR ''E''
              then (case parse_exponent r of
                      None \<Rightarrow> None
                    | Some x \<Rightarrow> Some (m, x - int (length fp)))
              else None)"

definition parse_non_decimal :: "string \<Rightarrow> jsnum option" where
  "parse_non_decimal t =
     (case t of
        c0 # c1 # ds \<Rightarrow>
          if c0 \<noteq> CHR ''0'' then None
          else if c1 = CHR ''x'' \<or> c1 = CHR ''X''
          then Some (if ds \<noteq> [] \<and> list_all isHexDigit ds
                     then to_double False (radix_value 16 0 ds) 1 else JNaN)
          else if c1 = CHR ''o'' \<or> c1 = CHR ''O''
          then Some (if ds \<noteq> [] \<and> list_all isOctalDigit ds
                     then to_double False (radix_value 8 0 ds) 1 else JNaN)
          else if c1 = CHR ''b'' \<or> c1 = CHR ''B''
          then Some (if ds \<noteq> [] \<and> list_all isBinaryDigit ds
                     then to_double False (radix_value 2 0 ds) 1 else JNaN)
          else None
      | _ \<Rightarrow> None)"

definition StringToNumber :: "string \<Rightarrow> jsnum" where
  "StringToNumber str =
     (let t = trim str
      in if t = [] then JFinite False 0 0
         else case parse_non_decimal t of
            Some n \<Rightarrow> n
          | None \<Rightarrow>
              let neg = (hd t = CHR ''-'');
                  u = (if hd t = CHR ''+'' \<or> hd t = CHR ''-'' then tl t else t)
              in if u = ''Infinity'' then JInfinity neg
                 else case parse_unsigned_decimal u of
                    None \<Rightarrow> JNaN
                  | Some (m, j) \<Rightarrow> dec_to_double neg m j)"

text \<open>\<^verbatim>\<open>+v\<close> for the values a constant can hold.\<close>

fun ToNumber :: "jsval \<Rightarrow> jsnum" where
  "ToNumber (JString s) = StringToNumber s"
| "ToNumber (JNumber n) = n"
| "ToNumber (JBoolean b) = (if b then JFinite False 1 0 else JFinite False 0 0)"

definition isNaN :: "jsnum \<Rightarrow> bool" where
  "isNaN n = (n = JNaN)"

definition isZero :: "jsnum \<Rightarrow> bool" where
  \<comment> \<open>\<^verbatim>\<open>n === 0\<close>: both zeros compare equal to 0\<close>
  "isZero n = (n = JFinite False 0 0 \<or> n = JFinite True 0 0)"

definition isNegativeZero :: "jsnum \<Rightarrow> bool" where
  \<comment> \<open>\<^verbatim>\<open>Object.is(n, -0)\<close>\<close>
  "isNegativeZero n = (n = JFinite True 0 0)"

definition truthy :: "jsnum \<Rightarrow> bool" where
  \<comment> \<open>ToBoolean of a Number: false for NaN and the zeros\<close>
  "truthy n = (\<not> isNaN n \<and> \<not> isZero n)"

definition isFiniteNumber :: "jsnum \<Rightarrow> bool" where
  "isFiniteNumber n = (case n of JFinite _ _ _ \<Rightarrow> True | _ \<Rightarrow> False)"

subsection \<open>Number::toString\<close>

definition digit_char :: "int \<Rightarrow> char" where
  "digit_char d = char_of (48 + d)"

function decimal_digits :: "int \<Rightarrow> string" where
  "decimal_digits n =
     (if n < 10 then [digit_char n] else decimal_digits (n div 10) @ [digit_char (n mod 10)])"
  by pat_completeness auto
termination
  by (relation "measure nat") auto

declare decimal_digits.simps [simp del]

definition frac_of :: "int \<Rightarrow> int \<Rightarrow> int \<times> int" where
  "frac_of m e = (if 0 \<le> e then (m * 2 ^ nat e, 1) else (m, 2 ^ nat (- e)))"

function lead :: "int \<Rightarrow> int \<Rightarrow> int" where
  "lead a b = (if a \<le> 0 \<or> b \<le> a then 0 else 1 + lead (10 * a) b)"
  by pat_completeness auto
termination
  by (relation "measure (\<lambda>(a, b). nat (b - a))") auto

declare lead.simps [simp del]

text \<open>The integer \<open>n\<close> with \<open>10^(n-1) \<le> a / b < 10^n\<close>, for a positive fraction.\<close>

definition exp10 :: "int \<times> int \<Rightarrow> int" where
  "exp10 x = (case x of (a, b) \<Rightarrow>
     if b \<le> a then int (length (decimal_digits (a div b))) else 1 - lead a b)"

text \<open>\<open>scale10 x j\<close> is the fraction \<open>x * 10^j\<close>.\<close>

definition scale10 :: "int \<times> int \<Rightarrow> int \<Rightarrow> int \<times> int" where
  "scale10 x j = (case x of (a, b) \<Rightarrow>
     if 0 \<le> j then (a * 10 ^ nat j, b) else (a, b * 10 ^ nat (- j)))"

text \<open>
  The candidates \<open>(n, s)\<close> with \<open>k\<close> digits for the Number \<open>JFinite False m e\<close>: the
  integers \<open>s\<close> with \<open>10^(k-1) \<le> s < 10^k\<close> next to \<open>x / 10^(n-k)\<close> whose decimal
  \<open>s * 10^(n-k)\<close> reads back as the same Number. Each comes with its distance to \<open>x\<close>,
  as a fraction.
\<close>

definition candidates :: "int \<Rightarrow> int \<Rightarrow> int \<Rightarrow> (int \<times> int \<times> int \<times> int) list" where
  "candidates m e k =
     (let x = frac_of m e; n0 = exp10 x
      in concat (map (\<lambda>n.
           case scale10 x (k - n) of (N, D) \<Rightarrow>
             concat (map (\<lambda>s.
               if 10 ^ nat (k - 1) \<le> s \<and> s < 10 ^ nat k
                  \<and> dec_to_double False s (n - k) = JFinite False m e
               then (case scale10 (\<bar>s * D - N\<bar>, D) (n - k) of (en, ed) \<Rightarrow> [(n, s, en, ed)])
               else []) [N div D, N div D + 1]))
         [n0 - 1, n0, n0 + 1]))"

definition closer :: "(int \<times> int \<times> int \<times> int) \<Rightarrow> (int \<times> int \<times> int \<times> int) \<Rightarrow> bool" where
  "closer c1 c2 = (case c1 of (n1, s1, en1, ed1) \<Rightarrow> case c2 of (n2, s2, en2, ed2) \<Rightarrow>
     en1 * ed2 < en2 * ed1 \<or> (en1 * ed2 = en2 * ed1 \<and> even s1 \<and> odd s2))"

fun closest :: "(int \<times> int \<times> int \<times> int) list \<Rightarrow> (int \<times> int) option" where
  "closest [] = None"
| "closest [c] = (case c of (n, s, en, ed) \<Rightarrow> Some (n, s))"
| "closest (c1 # c2 # cs) = (if closer c2 c1 then closest (c2 # cs) else closest (c1 # cs))"

text \<open>
  The shortest digit string: the least \<open>k\<close> with a candidate, and the nearest
  candidate of that length. Seventeen significant digits identify every binary64
  value, so the search ends by \<open>k = 17\<close>.
\<close>

fun shortest :: "nat \<Rightarrow> int \<Rightarrow> int \<Rightarrow> int \<Rightarrow> int \<times> int \<times> int" where
  "shortest 0 m e k = (exp10 (frac_of m e), k, 0)"
| "shortest (Suc fuel) m e k =
     (case closest (candidates m e k) of
        Some (n, s) \<Rightarrow> (n, k, s)
      | None \<Rightarrow> shortest fuel m e (k + 1))"

definition format_digits :: "int \<Rightarrow> int \<Rightarrow> int \<Rightarrow> string" where
  "format_digits n k s =
     (let ds = decimal_digits s
      in if k \<le> n \<and> n \<le> 21 then ds @ replicate (nat (n - k)) CHR ''0''
         else if 0 < n \<and> n \<le> 21 then take (nat n) ds @ ''.'' @ drop (nat n) ds
         else if - 6 < n \<and> n \<le> 0 then ''0.'' @ replicate (nat (- n)) CHR ''0'' @ ds
         else
           let ex = n - 1;
               sign = (if ex < 0 then ''-'' else ''+'');
               tail = ''e'' @ sign @ decimal_digits \<bar>ex\<bar>
           in if k = 1 then ds @ tail else take 1 ds @ ''.'' @ drop 1 ds @ tail)"

fun NumberToString :: "jsnum \<Rightarrow> string" where
  "NumberToString JNaN = ''NaN''"
| "NumberToString (JInfinity neg) = (if neg then ''-Infinity'' else ''Infinity'')"
| "NumberToString (JFinite neg m e) =
     (if m = 0 then ''0''
      else (if neg then ''-'' else '''') @
           (case shortest 17 m e 1 of (n, k, s) \<Rightarrow> format_digits n k s))"

text \<open>\<^verbatim>\<open>'' + v\<close> and \<^verbatim>\<open>v.toString()\<close> for the values a constant can hold.\<close>

fun ToString :: "jsval \<Rightarrow> string" where
  "ToString (JString s) = s"
| "ToString (JNumber n) = NumberToString n"
| "ToString (JBoolean b) = (if b then ''true'' else ''false'')"

subsection \<open>JSON string escaping\<close>

definition hex_char :: "int \<Rightarrow> char" where
  "hex_char d = (if d < 10 then char_of (48 + d) else char_of (87 + d))"

text \<open>QuoteJSONString on one code unit of the Latin-1 range.\<close>

definition json_escape_char :: "char \<Rightarrow> string" where
  "json_escape_char c =
     (let n = (of_char c :: int)
      in if n = 8 then [CHR 0x5C, CHR ''b'']
         else if n = 9 then [CHR 0x5C, CHR ''t'']
         else if n = 10 then [CHR 0x5C, CHR ''n'']
         else if n = 12 then [CHR 0x5C, CHR ''f'']
         else if n = 13 then [CHR 0x5C, CHR ''r'']
         else if n = 34 then [CHR 0x5C, CHR 0x22]
         else if n = 92 then [CHR 0x5C, CHR 0x5C]
         else if n < 32 then [CHR 0x5C] @ ''u00'' @ [hex_char (n div 16), hex_char (n mod 16)]
         else [c])"

text \<open>
  \<^verbatim>\<open>sanitize\<close> (jsgen.js, line 18): \<^verbatim>\<open>JSON.stringify(string).slice(1, -1)\<close>. Every caller
  in the modelled fragment passes a string.
\<close>

definition sanitize :: "string \<Rightarrow> string" where
  "sanitize string = concat (map json_escape_char string)"

section \<open>Typed values: TypedInput, ConstantInput, VariableInput\<close>

datatype jstype = TYPE_NUMBER | TYPE_STRING | TYPE_BOOLEAN | TYPE_UNKNOWN | TYPE_NUMBER_NAN

text \<open>
  An \<^verbatim>\<open>Input\<close> is one of the three classes. A VariableInput is a mutable object that the
  generator shares by reference (\<^verbatim>\<open>variableInputs\<close> hands the same object out again, and
  \<^verbatim>\<open>setInput\<close> updates it in place), so the value \<open>VariableInput a\<close> is a reference to the
  object at address \<open>a\<close> of a heap. The field \<^verbatim>\<open>_value\<close> holds any Input or null.
\<close>

datatype input =
    TypedInput string jstype
  | ConstantInput jsval bool
  | VariableInput nat

record variable_object =
  v_source :: string
  v_type :: jstype
  v_value :: "input option"

type_synonym heap = "nat \<Rightarrow> variable_object"

text \<open>\<^verbatim>\<open>new VariableInput(source)\<close>, the state the constructor leaves (lines 214-223).\<close>

definition new_VariableInput :: "string \<Rightarrow> variable_object" where
  "new_VariableInput src = \<lparr>v_source = src, v_type = TYPE_UNKNOWN, v_value = None\<rparr>"

subsection \<open>TypedInput (lines 69-121)\<close>

definition typed_asNumber :: "string \<Rightarrow> jstype \<Rightarrow> string" where
  "typed_asNumber src ty =
     (if ty = TYPE_NUMBER then src
      else if ty = TYPE_NUMBER_NAN then ''('' @ src @ '' || 0)''
      else ''(+'' @ src @ '' || 0)'')"

definition typed_asNumberOrNaN :: "string \<Rightarrow> jstype \<Rightarrow> string" where
  "typed_asNumberOrNaN src ty =
     (if ty = TYPE_NUMBER \<or> ty = TYPE_NUMBER_NAN then src else ''(+'' @ src @ '')'')"

definition typed_asString :: "string \<Rightarrow> jstype \<Rightarrow> string" where
  "typed_asString src ty =
     (if ty = TYPE_STRING then src else [CHR ''('', CHR 0x22, CHR 0x22] @ '' + '' @ src @ '')'')"

definition typed_isAlwaysNumber :: "jstype \<Rightarrow> bool" where
  "typed_isAlwaysNumber ty = (ty = TYPE_NUMBER)"

definition typed_isAlwaysNumberOrNaN :: "jstype \<Rightarrow> bool" where
  "typed_isAlwaysNumberOrNaN ty = (ty = TYPE_NUMBER \<or> ty = TYPE_NUMBER_NAN)"

definition typed_isNeverNumber :: "jstype \<Rightarrow> bool" where
  "typed_isNeverNumber ty = False"

subsection \<open>ConstantInput (lines 126-208)\<close>

definition constant_asNumber :: "jsval \<Rightarrow> string" where
  "constant_asNumber constantValue =
     (let numberValue = ToNumber constantValue
      in if truthy numberValue then NumberToString numberValue
         else if isNegativeZero numberValue then ''-0''
         else ''0'')"

definition constant_asString :: "jsval \<Rightarrow> string" where
  "constant_asString constantValue =
     [CHR 0x22] @ sanitize (ToString constantValue) @ [CHR 0x22]"

text \<open>
  \<^verbatim>\<open>asUnknown\<close> returns the constant itself when it is a number; every caller splices
  the result into a template string, which applies ToString to it.
\<close>

definition constant_asUnknown :: "jsval \<Rightarrow> string" where
  "constant_asUnknown constantValue =
     (case constantValue of
        JNumber n \<Rightarrow> NumberToString n
      | JString s \<Rightarrow>
          if NumberToString (ToNumber constantValue) = s then s
          else constant_asString constantValue
      | JBoolean b \<Rightarrow> constant_asString constantValue)"

definition constant_asSafe :: "jsval \<Rightarrow> bool \<Rightarrow> string" where
  "constant_asSafe constantValue safe =
     (if safe then constant_asUnknown constantValue else constant_asString constantValue)"

definition constant_isAlwaysNumber :: "jsval \<Rightarrow> bool" where
  "constant_isAlwaysNumber constantValue =
     (let v = ToNumber constantValue
      in if isNaN v then False
         else if isZero v then trim (ToString constantValue) \<noteq> []
         else True)"

definition constant_isNeverNumber :: "jsval \<Rightarrow> bool" where
  "constant_isNeverNumber constantValue = isNaN (ToNumber constantValue)"

text \<open>\<^verbatim>\<open>isSafeConstantForEqualsOptimization\<close> (lines 319-327).\<close>

definition isSafeConstantForEqualsOptimization :: "jsval \<Rightarrow> bool" where
  "isSafeConstantForEqualsOptimization constantValue =
     (let numberValue = ToNumber constantValue
      in if \<not> truthy numberValue then False
         else NumberToString numberValue = ToString constantValue)"

subsection \<open>VariableInput (lines 213-301)\<close>

definition setInput :: "heap \<Rightarrow> nat \<Rightarrow> input \<Rightarrow> heap" where
  "setInput h this inp =
     (let store = (\<lambda>i. h(this := (h this)\<lparr>
                      v_value := Some i,
                      v_type := (case i of TypedInput s t \<Rightarrow> t | _ \<Rightarrow> TYPE_UNKNOWN)\<rparr>))
      in case inp of
           VariableInput other \<Rightarrow>
             (case v_value (h other) of
                Some i \<Rightarrow> store i
              | None \<Rightarrow> h(this := (h this)\<lparr>v_type := TYPE_UNKNOWN, v_value := None\<rparr>))
         | _ \<Rightarrow> store inp)"

subsection \<open>The methods, dispatched on the class\<close>

fun asNumber :: "heap \<Rightarrow> input \<Rightarrow> string" where
  "asNumber h (TypedInput src ty) = typed_asNumber src ty"
| "asNumber h (ConstantInput c safe) = constant_asNumber c"
| "asNumber h (VariableInput a) = typed_asNumber (v_source (h a)) (v_type (h a))"

fun asNumberOrNaN :: "heap \<Rightarrow> input \<Rightarrow> string" where
  "asNumberOrNaN h (TypedInput src ty) = typed_asNumberOrNaN src ty"
| "asNumberOrNaN h (ConstantInput c safe) = constant_asNumber c"
| "asNumberOrNaN h (VariableInput a) = typed_asNumberOrNaN (v_source (h a)) (v_type (h a))"

fun asString :: "heap \<Rightarrow> input \<Rightarrow> string" where
  "asString h (TypedInput src ty) = typed_asString src ty"
| "asString h (ConstantInput c safe) = constant_asString c"
| "asString h (VariableInput a) = typed_asString (v_source (h a)) (v_type (h a))"

fun asUnknown :: "heap \<Rightarrow> input \<Rightarrow> string" where
  "asUnknown h (TypedInput src ty) = src"
| "asUnknown h (ConstantInput c safe) = constant_asUnknown c"
| "asUnknown h (VariableInput a) = v_source (h a)"

fun asSafe :: "heap \<Rightarrow> input \<Rightarrow> string" where
  "asSafe h (TypedInput src ty) = src"
| "asSafe h (ConstantInput c safe) = constant_asSafe c safe"
| "asSafe h (VariableInput a) = v_source (h a)"

text \<open>
  The three predicates of a VariableInput call the same predicate of its \<^verbatim>\<open>_value\<close>. On a
  heap where \<^verbatim>\<open>_value\<close> fields form a cycle that recursion does not end; the result
  \<open>None\<close> stands for that.
\<close>

partial_function (option) isAlwaysNumber :: "heap \<Rightarrow> input \<Rightarrow> bool option" where
  "isAlwaysNumber h i =
     (case i of
        TypedInput src ty \<Rightarrow> Some (typed_isAlwaysNumber ty)
      | ConstantInput c safe \<Rightarrow> Some (constant_isAlwaysNumber c)
      | VariableInput a \<Rightarrow>
          (case v_value (h a) of
             Some v \<Rightarrow> isAlwaysNumber h v
           | None \<Rightarrow> Some False))"

partial_function (option) isAlwaysNumberOrNaN :: "heap \<Rightarrow> input \<Rightarrow> bool option" where
  "isAlwaysNumberOrNaN h i =
     (case i of
        TypedInput src ty \<Rightarrow> Some (typed_isAlwaysNumberOrNaN ty)
      | ConstantInput c safe \<Rightarrow> Some (constant_isAlwaysNumber c)
      | VariableInput a \<Rightarrow>
          (case v_value (h a) of
             Some v \<Rightarrow> isAlwaysNumberOrNaN h v
           | None \<Rightarrow> Some False))"

partial_function (option) isNeverNumber :: "heap \<Rightarrow> input \<Rightarrow> bool option" where
  "isNeverNumber h i =
     (case i of
        TypedInput src ty \<Rightarrow> Some (typed_isNeverNumber ty)
      | ConstantInput c safe \<Rightarrow> Some (constant_isNeverNumber c)
      | VariableInput a \<Rightarrow>
          (case v_value (h a) of
             Some v \<Rightarrow> isNeverNumber h v
           | None \<Rightarrow> Some False))"

declare isAlwaysNumber.simps [code]
declare isAlwaysNumberOrNaN.simps [code]
declare isNeverNumber.simps [code]

section \<open>The intermediate representation\<close>

text \<open>
  The generator walks IR nodes made by an earlier pass. The model covers the node kinds
  below, one constructor per \<^verbatim>\<open>case\<close> of the two switches, with the fields that the
  case reads. No extension transformer is registered for them
  (\<^verbatim>\<open>JSGenerator.hasExtensionJs\<close> is false), so every node reaches the built-in switch.
\<close>

record variable =
  var_id :: string
  var_scope :: string
  var_name :: string
  var_isCloud :: bool

datatype expr =
    Constant jsval                                  \<comment> \<open>\<^verbatim>\<open>constant\<close>: value\<close>
  | VarGet variable                                 \<comment> \<open>\<^verbatim>\<open>var.get\<close>: variable\<close>
  | OpAdd expr expr                                 \<comment> \<open>\<^verbatim>\<open>op.add\<close>: left, right\<close>
  | OpEquals expr expr                              \<comment> \<open>\<^verbatim>\<open>op.equals\<close>: left, right\<close>
  | OpGreater expr expr                             \<comment> \<open>\<^verbatim>\<open>op.greater\<close>: left, right\<close>
  | OpLess expr expr                                \<comment> \<open>\<^verbatim>\<open>op.less\<close>: left, right\<close>
  | BroadcastFunction expr                          \<comment> \<open>\<^verbatim>\<open>pmEventsExpansion.broadcastFunction\<close>: broadcast\<close>
  | ProceduresCallExpr string string string "expr list"
                                                    \<comment> \<open>\<^verbatim>\<open>procedures.call\<close>: type, code, variant, arguments\<close>
  | InlineStackOutput "stmt list"                   \<comment> \<open>\<^verbatim>\<open>control.inlineStackOutput\<close>: code\<close>
and stmt =
    VarSet variable expr                            \<comment> \<open>\<^verbatim>\<open>var.set\<close>: variable, value\<close>
  | ControlWait expr                                \<comment> \<open>\<^verbatim>\<open>control.wait\<close>: seconds\<close>
  | ControlRepeat expr "stmt list"                  \<comment> \<open>\<^verbatim>\<open>control.repeat\<close>: times, do\<close>
  | EventBroadcast expr                             \<comment> \<open>\<^verbatim>\<open>event.broadcast\<close>: broadcast\<close>
  | EventBroadcastAndWait expr                      \<comment> \<open>\<^verbatim>\<open>event.broadcastAndWait\<close>: broadcast\<close>
  | ProceduresCall string string string "expr list"
                                                    \<comment> \<open>\<^verbatim>\<open>procedures.call\<close>: type, code, variant, arguments\<close>
  | AddonsCall string string "(string \<times> expr) list"
                                                    \<comment> \<open>\<^verbatim>\<open>addons.call\<close>: code, blockId, arguments\<close>
  | ControlStopAll                                  \<comment> \<open>\<^verbatim>\<open>control.stopAll\<close>\<close>

text \<open>The script header and an entry of \<^verbatim>\<open>ir.procedures\<close>, with the fields the generator reads.\<close>

record script =
  s_stack :: "stmt list option"
  s_yields :: bool
  s_isWarp :: bool
  s_isProcedure :: bool
  s_warpTimer :: bool
  s_procedureCode :: "string option"
  s_arguments :: "string list"

record procedure_data =
  p_stack :: "stmt list option"
  p_yields :: bool
  p_arguments :: "string list"

section \<open>The generator state\<close>

datatype js_error =
    Error string      \<comment> \<open>\<^verbatim>\<open>throw new Error(message)\<close>\<close>
  | TypeError         \<comment> \<open>a property read on \<^verbatim>\<open>undefined\<close>\<close>
  | RangeError        \<comment> \<open>recursion without end\<close>

text \<open>\<^verbatim>\<open>Frame\<close> (lines 332-347).\<close>

record frame =
  isLoop :: bool
  isLastBlock :: bool

definition new_Frame :: "bool \<Rightarrow> frame" where
  "new_Frame l = \<lparr>isLoop = l, isLastBlock = False\<rparr>"

text \<open>
  The fields of a \<^verbatim>\<open>JSGenerator\<close> (constructor, lines 355-391). \<open>heap\<close> and \<open>next_ref\<close>
  hold the VariableInput objects made so far and the next free address; \<open>localVariables\<close>
  and \<open>setupVariablesPool\<close> are the counters of the two name pools. \<^verbatim>\<open>currentFrame\<close> is an
  alias of the last element of \<open>frames\<close> and is read by no modelled code.
\<close>

record gen =
  script :: script
  procedures :: "string \<Rightarrow> procedure_data option"
  source :: string
  variableInputs :: "string \<Rightarrow> nat option"
  heap :: heap
  next_ref :: nat
  isWarp :: bool
  isProcedure :: bool
  warpTimer :: bool
  frames :: "frame list"
  namesOfCostumesAndSounds :: "string list"
  localVariables :: nat
  setupVariablesPool :: nat
  setupVariables :: "(string \<times> string) list"
  descendedIntoModulo :: bool

definition new_JSGenerator ::
    "script \<Rightarrow> (string \<Rightarrow> procedure_data option) \<Rightarrow> string list \<Rightarrow> gen" where
  "new_JSGenerator scr procs names =
     \<lparr>script = scr, procedures = procs, source = [],
      variableInputs = Map.empty, heap = (\<lambda>a. new_VariableInput []), next_ref = 0,
      isWarp = s_isWarp scr, isProcedure = s_isProcedure scr, warpTimer = s_warpTimer scr,
      frames = [], namesOfCostumesAndSounds = names,
      localVariables = 0, setupVariablesPool = 0, setupVariables = [],
      descendedIntoModulo = False\<rparr>"

subsection \<open>Characters that need an escape in a string literal\<close>

definition nl :: string where "nl = [CHR 0x0A]"
definition dq :: string where "dq = [CHR 0x22]"
definition sq :: string where "sq = [CHR 0x27]"

subsection \<open>Name pools\<close>

text \<open>
  Modelled from the spec: the module \<^verbatim>\<open>variable-pool.js\<close> is not among the sources. The
  spec's Name Pool is a prefix and a counter, and \<^verbatim>\<open>next()\<close> returns the prefix followed
  by the counter as a base-36 numeral, then increments the counter.
\<close>

definition digit36 :: "int \<Rightarrow> char" where
  "digit36 d = (if d < 10 then char_of (48 + d) else char_of (87 + d))"

function base36 :: "int \<Rightarrow> string" where
  "base36 n = (if n < 36 then [digit36 n] else base36 (n div 36) @ [digit36 (n mod 36)])"
  by pat_completeness auto
termination
  by (relation "measure nat") auto

declare base36.simps [simp del]

definition pool_next :: "string \<Rightarrow> nat \<Rightarrow> string" where
  "pool_next pre count = pre @ base36 (int count)"

definition localVariables_next :: "gen \<Rightarrow> string \<times> gen" where
  "localVariables_next g =
     (pool_next ''a'' (localVariables g), g\<lparr>localVariables := Suc (localVariables g)\<rparr>)"

subsection \<open>Frames (lines 425-452)\<close>

definition pushFrame :: "gen \<Rightarrow> frame \<Rightarrow> gen" where
  "pushFrame g f = g\<lparr>frames := frames g @ [f]\<rparr>"

definition popFrame :: "gen \<Rightarrow> gen" where
  "popFrame g = g\<lparr>frames := butlast (frames g)\<rparr>"

text \<open>The loop of \<^verbatim>\<open>isLastBlockInLoop\<close>, from index \<open>i\<close> down to 0.\<close>

function isLastBlockInLoop_from :: "frame list \<Rightarrow> int \<Rightarrow> bool" where
  "isLastBlockInLoop_from fs i =
     (if 0 \<le> i then
        (let f = fs ! nat i
         in if \<not> isLastBlock f then False
            else if isLoop f then True
            else isLastBlockInLoop_from fs (i - 1))
      else False)"
  by pat_completeness auto
termination
  by (relation "measure (\<lambda>(fs, i). nat (i + 1))") auto

declare isLastBlockInLoop_from.simps [simp del]

definition isLastBlockInLoop :: "gen \<Rightarrow> bool" where
  "isLastBlockInLoop g = isLastBlockInLoop_from (frames g) (int (length (frames g)) - 1)"

subsection \<open>Yields and the variable tracker (lines 1451-1551)\<close>

definition resetVariableInputs :: "gen \<Rightarrow> gen" where
  "resetVariableInputs g = g\<lparr>variableInputs := Map.empty\<rparr>"

definition yielded :: "gen \<Rightarrow> js_error + gen" where
  "yielded g =
     (if \<not> s_yields (script g) then Inl (Error ''Script yielded but is not marked as yielding.'')
      else Inr (resetVariableInputs g))"

definition yieldNotWarp :: "gen \<Rightarrow> js_error + gen" where
  "yieldNotWarp g =
     (if \<not> isWarp g then yielded (g\<lparr>source := source g @ ''yield;'' @ nl\<rparr>) else Inr g)"

definition yieldStuckOrNotWarp :: "gen \<Rightarrow> js_error + gen" where
  "yieldStuckOrNotWarp g =
     yielded (if isWarp g then g\<lparr>source := source g @ ''if (isStuck()) yield;'' @ nl\<rparr>
              else g\<lparr>source := source g @ ''yield;'' @ nl\<rparr>)"

definition yieldLoop :: "gen \<Rightarrow> js_error + gen" where
  "yieldLoop g = (if warpTimer g then yieldStuckOrNotWarp g else yieldNotWarp g)"

definition requestRedraw :: "gen \<Rightarrow> gen" where
  "requestRedraw g = g\<lparr>source := source g @ ''runtime.requestRedraw();'' @ nl\<rparr>"

definition retire :: "gen \<Rightarrow> gen" where
  "retire g =
     (if isProcedure g then g\<lparr>source := source g @ ''retire(); yield;'' @ nl\<rparr>
      else g\<lparr>source := source g @ ''retire(); return;'' @ nl\<rparr>)"

subsection \<open>Variables and hoisted lookups (lines 1472-1495, 1553-1556)\<close>

definition evaluateOnce :: "gen \<Rightarrow> string \<Rightarrow> string \<times> gen" where
  "evaluateOnce g src =
     (case map_of (setupVariables g) src of
        Some v \<Rightarrow> (v, g)
      | None \<Rightarrow>
          let v = pool_next ''b'' (setupVariablesPool g)
          in (v, g\<lparr>setupVariablesPool := Suc (setupVariablesPool g),
                   setupVariables := setupVariables g @ [(src, v)]\<rparr>))"

definition referenceVariable :: "gen \<Rightarrow> variable \<Rightarrow> string \<times> gen" where
  "referenceVariable g v =
     (if var_scope v = ''target''
      then evaluateOnce g (''target.variables['' @ dq @ sanitize (var_id v) @ dq @ '']'')
      else evaluateOnce g (''stage.variables['' @ dq @ sanitize (var_id v) @ dq @ '']''))"

text \<open>\<^verbatim>\<open>descendVariable\<close> returns the VariableInput object, here its address.\<close>

definition descendVariable :: "gen \<Rightarrow> variable \<Rightarrow> nat \<times> gen" where
  "descendVariable g v =
     (case variableInputs g (var_id v) of
        Some a \<Rightarrow> (a, g)
      | None \<Rightarrow>
          (case referenceVariable g v of (r, g1) \<Rightarrow>
             let a = next_ref g1
             in (a, g1\<lparr>heap := (heap g1)(a := new_VariableInput (r @ ''.value'')),
                       next_ref := Suc a,
                       variableInputs := (variableInputs g1)(var_id v \<mapsto> a)\<rparr>)))"

definition safeConstantInput :: "gen \<Rightarrow> jsval \<Rightarrow> input" where
  "safeConstantInput g v =
     (let unsafe = (case v of JString s \<Rightarrow> s \<in> set (namesOfCostumesAndSounds g) | _ \<Rightarrow> False)
      in ConstantInput v (\<not> unsafe))"

section \<open>Lowering expressions and statements\<close>

subsection \<open>The comparison rules of \<^verbatim>\<open>descendInput\<close> (lines 617-683)\<close>

text \<open>
  Each function is the body of its \<^verbatim>\<open>case\<close> after the two operands have been lowered. A
  predicate whose recursion does not end overflows the call stack.
\<close>

definition isConstantInput :: "input \<Rightarrow> bool" where
  \<comment> \<open>\<^verbatim>\<open>input instanceof ConstantInput\<close>\<close>
  "isConstantInput i = (case i of ConstantInput c safe \<Rightarrow> True | _ \<Rightarrow> False)"

definition constantValue :: "input \<Rightarrow> jsval" where
  "constantValue i = (case i of ConstantInput c safe \<Rightarrow> c | _ \<Rightarrow> JString [])"

definition lowercase_compare :: "heap \<Rightarrow> string \<Rightarrow> input \<Rightarrow> input \<Rightarrow> input" where
  "lowercase_compare h opr left right =
     TypedInput (''('' @ asString h left @ ''.toLowerCase() '' @ opr @ '' '' @
                 asString h right @ ''.toLowerCase())'') TYPE_BOOLEAN"

definition op_equals :: "heap \<Rightarrow> input \<Rightarrow> input \<Rightarrow> js_error + input" where
  "op_equals h left right =
     (case isNeverNumber h left of None \<Rightarrow> Inl RangeError | Some leftNever \<Rightarrow>
      case (if leftNever then Some True else isNeverNumber h right) of None \<Rightarrow> Inl RangeError | Some nn \<Rightarrow>
      if nn then Inr (lowercase_compare h ''==='' left right)
      else
      case isAlwaysNumber h left of None \<Rightarrow> Inl RangeError | Some leftAlwaysNumber \<Rightarrow>
      case isAlwaysNumber h right of None \<Rightarrow> Inl RangeError | Some rightAlwaysNumber \<Rightarrow>
      if leftAlwaysNumber \<and> rightAlwaysNumber
      then Inr (TypedInput (''('' @ asNumber h left @ '' === '' @ asNumber h right @ '')'') TYPE_BOOLEAN)
      else if leftAlwaysNumber \<and> isConstantInput left
              \<and> isSafeConstantForEqualsOptimization (constantValue left)
      then Inr (TypedInput (''('' @ asNumber h left @ '' === '' @ asNumber h right @ '')'') TYPE_BOOLEAN)
      else if rightAlwaysNumber \<and> isConstantInput right
              \<and> isSafeConstantForEqualsOptimization (constantValue right)
      then Inr (TypedInput (''('' @ asNumber h left @ '' === '' @ asNumber h right @ '')'') TYPE_BOOLEAN)
      else Inr (TypedInput (''compareEqual('' @ asUnknown h left @ '', '' @ asUnknown h right @ '')'')
                  TYPE_BOOLEAN))"

definition op_greater :: "heap \<Rightarrow> input \<Rightarrow> input \<Rightarrow> js_error + input" where
  "op_greater h left right =
     (case isAlwaysNumber h left of None \<Rightarrow> Inl RangeError | Some la \<Rightarrow>
      case (if la then isAlwaysNumberOrNaN h right else Some False) of None \<Rightarrow> Inl RangeError | Some c1 \<Rightarrow>
      if c1
      then Inr (TypedInput (''('' @ asNumber h left @ '' > '' @ asNumberOrNaN h right @ '')'') TYPE_BOOLEAN)
      else
      case isAlwaysNumberOrNaN h left of None \<Rightarrow> Inl RangeError | Some lan \<Rightarrow>
      case (if lan then isAlwaysNumber h right else Some False) of None \<Rightarrow> Inl RangeError | Some c2 \<Rightarrow>
      if c2
      then Inr (TypedInput (''!('' @ asNumberOrNaN h left @ '' <= '' @ asNumber h right @ '')'') TYPE_BOOLEAN)
      else
      case isNeverNumber h left of None \<Rightarrow> Inl RangeError | Some leftNever \<Rightarrow>
      case (if leftNever then Some True else isNeverNumber h right) of None \<Rightarrow> Inl RangeError | Some nn \<Rightarrow>
      if nn then Inr (lowercase_compare h ''>'' left right)
      else Inr (TypedInput (''compareGreaterThan('' @ asUnknown h left @ '', '' @ asUnknown h right @ '')'')
                  TYPE_BOOLEAN))"

definition op_less :: "heap \<Rightarrow> input \<Rightarrow> input \<Rightarrow> js_error + input" where
  "op_less h left right =
     (case isAlwaysNumberOrNaN h left of None \<Rightarrow> Inl RangeError | Some lan \<Rightarrow>
      case (if lan then isAlwaysNumber h right else Some False) of None \<Rightarrow> Inl RangeError | Some c1 \<Rightarrow>
      if c1
      then Inr (TypedInput (''('' @ asNumberOrNaN h left @ '' < '' @ asNumber h right @ '')'') TYPE_BOOLEAN)
      else
      case isAlwaysNumber h left of None \<Rightarrow> Inl RangeError | Some la \<Rightarrow>
      case (if la then isAlwaysNumberOrNaN h right else Some False) of None \<Rightarrow> Inl RangeError | Some c2 \<Rightarrow>
      if c2
      then Inr (TypedInput (''!('' @ asNumber h left @ '' >= '' @ asNumberOrNaN h right @ '')'') TYPE_BOOLEAN)
      else
      case isNeverNumber h left of None \<Rightarrow> Inl RangeError | Some leftNever \<Rightarrow>
      case (if leftNever then Some True else isNeverNumber h right) of None \<Rightarrow> Inl RangeError | Some nn \<Rightarrow>
      if nn then Inr (lowercase_compare h ''<'' left right)
      else Inr (TypedInput (''compareLessThan('' @ asUnknown h left @ '', '' @ asUnknown h right @ '')'')
                  TYPE_BOOLEAN))"

subsection \<open>Small helpers of the two switches\<close>

text \<open>\<^verbatim>\<open>Array.prototype.join\<close>.\<close>

fun join :: "string list \<Rightarrow> string \<Rightarrow> string" where
  "join [] sep = []"
| "join [x] sep = x"
| "join (x # y # ys) sep = x @ sep @ join (y # ys) sep"

text \<open>
  A call on the result of \<^verbatim>\<open>descendInput\<close>: the result is \<^verbatim>\<open>undefined\<close> when the switch was
  left by \<^verbatim>\<open>break\<close>, and a method call on it throws a TypeError.
\<close>

definition defined :: "js_error + (input option \<times> gen) \<Rightarrow> js_error + (input \<times> gen)" where
  "defined r =
     (case r of
        Inl e \<Rightarrow> Inl e
      | Inr (None, g) \<Rightarrow> Inl TypeError
      | Inr (Some i, g) \<Rightarrow> Inr (i, g))"

text \<open>The table \<^verbatim>\<open>types\<close> of \<^verbatim>\<open>procedures.call\<close> (lines 810-816), after \<^verbatim>\<open>node.type || 'string'\<close>.\<close>

definition blockType :: "string \<Rightarrow> jstype option" where
  "blockType ty =
     (let t = (if ty = [] then ''string'' else ty)
      in if t = ''string'' then Some TYPE_STRING
         else if t = ''number'' then Some TYPE_NUMBER
         else if t = ''boolean'' then Some TYPE_BOOLEAN
         else None)"

text \<open>The text that \<^verbatim>\<open>pmEventsExpansion.broadcastFunction\<close> builds (lines 566-590).\<close>

definition broadcastFunction_source ::
    "string \<Rightarrow> string \<Rightarrow> bool \<Rightarrow> string \<Rightarrow> string \<Rightarrow> string" where
  "broadcastFunction_source threads broadcast warp val thread =
     ''(yield* (function*() {'' @
     ''var '' @ threads @ '' = startHats('' @ dq @ ''event_whenbroadcastreceived'' @ dq @
       '', { BROADCAST_OPTION: '' @ broadcast @ '' });'' @
     ''waitThreads('' @ threads @ '');'' @
     (if warp then ''if (isStuck()) yield;'' @ nl else ''yield;'' @ nl) @
     ''var '' @ val @ '' = undefined;'' @
     ''for (var '' @ thread @ '' of '' @ threads @ '') {'' @
     ''if (typeof '' @ thread @ ''.__evex_returnDataa !== '' @ sq @ ''undefined'' @ sq @ '') {'' @
     ''return '' @ thread @ ''.__evex_returnDataa;'' @
     ''}'' @
     ''}'' @
     ''return '' @ sq @ sq @ '';'' @
     ''})())''"

definition setIsLastBlock :: "nat \<Rightarrow> bool \<Rightarrow> frame list \<Rightarrow> frame list" where
  "setIsLastBlock idx b fs = (if idx < length fs then fs[idx := (fs ! idx)\<lparr>isLastBlock := b\<rparr>] else fs)"

definition undefined_operand :: "bool option \<Rightarrow> js_error" where
  \<comment> \<open>the right operand is \<^verbatim>\<open>undefined\<close>; the first predicate of the left one has run\<close>
  "undefined_operand p = (case p of None \<Rightarrow> RangeError | Some b \<Rightarrow> TypeError)"

definition startHats_broadcast :: "string \<Rightarrow> string" where
  "startHats_broadcast broadcast =
     ''startHats('' @ dq @ ''event_whenbroadcastreceived'' @ dq @
     '', { BROADCAST_OPTION: '' @ broadcast @ '' })''"

subsection \<open>\<^verbatim>\<open>descendInput\<close>, \<^verbatim>\<open>descendStackedBlock\<close>, \<^verbatim>\<open>descendStack\<close>\<close>

text \<open>
  A compound assignment \<^verbatim>\<open>this.source += `...${this.descendInput(n)...}`\<close> reads
  \<^verbatim>\<open>this.source\<close> before it evaluates the right-hand side, so the text that lowering \<open>n\<close>
  appends to \<^verbatim>\<open>this.source\<close> is overwritten; the equations keep the old text in \<open>old\<close>.

  \<open>descendArguments\<close> is the loop over \<^verbatim>\<open>node.arguments\<close> of \<^verbatim>\<open>procedures.call\<close>,
  \<open>descendInputRecord_from\<close> the loop of \<^verbatim>\<open>descendInputRecord\<close> with its local \<^verbatim>\<open>result\<close>,
  and \<open>descendStack_from\<close> the loop of \<^verbatim>\<open>descendStack\<close>; \<open>idx\<close> is the place in
  \<open>frames\<close> of the frame that the loop updates.
\<close>

fun descendInput :: "gen \<Rightarrow> expr \<Rightarrow> js_error + (input option \<times> gen)"
and descendArguments :: "gen \<Rightarrow> expr list \<Rightarrow> js_error + (string list \<times> gen)"
and descendInputRecord_from :: "gen \<Rightarrow> string \<Rightarrow> (string \<times> expr) list \<Rightarrow> js_error + (string \<times> gen)"
and descendStackedBlock :: "gen \<Rightarrow> stmt \<Rightarrow> js_error + gen"
and descendStack :: "gen \<Rightarrow> stmt list \<Rightarrow> frame \<Rightarrow> js_error + gen"
and descendStack_from :: "gen \<Rightarrow> nat \<Rightarrow> stmt list \<Rightarrow> js_error + gen"
where
  "descendInput g (Constant v) = Inr (Some (safeConstantInput g v), g)"
| "descendInput g (VarGet v) =
     (case descendVariable g v of (a, g1) \<Rightarrow> Inr (Some (VariableInput a), g1))"
| "descendInput g (OpAdd l r) =
     (case defined (descendInput g l) of Inl e \<Rightarrow> Inl e | Inr (left, g1) \<Rightarrow>
      let ls = asNumber (heap g1) left in
      case defined (descendInput g1 r) of Inl e \<Rightarrow> Inl e | Inr (right, g2) \<Rightarrow>
      Inr (Some (TypedInput (''('' @ ls @ '' + '' @ asNumber (heap g2) right @ '')'') TYPE_NUMBER_NAN), g2))"
| "descendInput g (OpEquals l r) =
     (case descendInput g l of Inl e \<Rightarrow> Inl e | Inr (left, g1) \<Rightarrow>
      case descendInput g1 r of Inl e \<Rightarrow> Inl e | Inr (right, g2) \<Rightarrow>
      case left of None \<Rightarrow> Inl TypeError | Some li \<Rightarrow>
      case right of None \<Rightarrow> Inl (undefined_operand (isNeverNumber (heap g2) li)) | Some ri \<Rightarrow>
      case op_equals (heap g2) li ri of Inl e \<Rightarrow> Inl e | Inr i \<Rightarrow> Inr (Some i, g2))"
| "descendInput g (OpGreater l r) =
     (case descendInput g l of Inl e \<Rightarrow> Inl e | Inr (left, g1) \<Rightarrow>
      case descendInput g1 r of Inl e \<Rightarrow> Inl e | Inr (right, g2) \<Rightarrow>
      case left of None \<Rightarrow> Inl TypeError | Some li \<Rightarrow>
      case right of None \<Rightarrow> Inl (undefined_operand (isAlwaysNumber (heap g2) li)) | Some ri \<Rightarrow>
      case op_greater (heap g2) li ri of Inl e \<Rightarrow> Inl e | Inr i \<Rightarrow> Inr (Some i, g2))"
| "descendInput g (OpLess l r) =
     (case descendInput g l of Inl e \<Rightarrow> Inl e | Inr (left, g1) \<Rightarrow>
      case descendInput g1 r of Inl e \<Rightarrow> Inl e | Inr (right, g2) \<Rightarrow>
      case left of None \<Rightarrow> Inl TypeError | Some li \<Rightarrow>
      case right of None \<Rightarrow> Inl (undefined_operand (isAlwaysNumberOrNaN (heap g2) li)) | Some ri \<Rightarrow>
      case op_less (heap g2) li ri of Inl e \<Rightarrow> Inl e | Inr i \<Rightarrow> Inr (Some i, g2))"
| "descendInput g (BroadcastFunction b) =
     (case localVariables_next g of (threads, g1) \<Rightarrow>
      case defined (descendInput g1 b) of Inl e \<Rightarrow> Inl e | Inr (bi, g2) \<Rightarrow>
      let broadcast = asString (heap g2) bi;
          warp = isWarp g2;
          g3 = resetVariableInputs g2
      in case localVariables_next g3 of (val, g4) \<Rightarrow>
         case localVariables_next g4 of (thread, g5) \<Rightarrow>
         Inr (Some (TypedInput (broadcastFunction_source threads broadcast warp val thread) TYPE_STRING),
              g5))"
| "descendInput g (ProceduresCallExpr ty code variant args) =
     (case procedures g variant of
        None \<Rightarrow> Inl TypeError
      | Some procedureData \<Rightarrow>
          if p_stack procedureData = None then Inr (None, g)
          else
            case (if \<not> isWarp g \<and> Some code = s_procedureCode (script g)
                  then yieldNotWarp g else Inr g) of
              Inl e \<Rightarrow> Inl e
            | Inr g1 \<Rightarrow>
                if p_yields procedureData \<and> \<not> s_yields (script g1)
                then Inl (Error ''Script uses yielding procedure but is not marked as yielding.'')
                else
                  let src1 = ''('' @ (if p_yields procedureData then ''yield* '' else []) @
                             ''thread.procedures['' @ dq @ sanitize variant @ dq @ '']('' in
                  case (if p_arguments procedureData \<noteq> []
                        then descendArguments g1 args else Inr ([], g1)) of
                    Inl e \<Rightarrow> Inl e
                  | Inr (as, g2) \<Rightarrow>
                      let src2 = src1 @ join as '','' @ ''))'';
                          g3 = resetVariableInputs g2
                      in case blockType ty of
                           None \<Rightarrow> Inl (Error ''type is invalid'')
                         | Some bt \<Rightarrow> Inr (Some (TypedInput src2 bt), g3))"
| "descendInput g (InlineStackOutput code) =
     (let originalSource = source g in
      case descendStack (g\<lparr>source := ''(yield* (function*() {''\<rparr>) code (new_Frame False) of
        Inl e \<Rightarrow> Inl e
      | Inr g1 \<Rightarrow>
          let stackSource = source g1 @ ''})())''
          in Inr (Some (TypedInput stackSource TYPE_UNKNOWN), g1\<lparr>source := originalSource\<rparr>))"
| "descendArguments g [] = Inr ([], g)"
| "descendArguments g (a # as) =
     (case defined (descendInput g a) of Inl e \<Rightarrow> Inl e | Inr (i, g1) \<Rightarrow>
      let s = asSafe (heap g1) i in
      case descendArguments g1 as of Inl e \<Rightarrow> Inl e | Inr (ss, g2) \<Rightarrow> Inr (s # ss, g2))"
| "descendInputRecord_from g result [] = Inr (result @ ''}'', g)"
| "descendInputRecord_from g result (kv # rest) =
     (case defined (descendInput g (snd kv)) of Inl e \<Rightarrow> Inl e | Inr (i, g1) \<Rightarrow>
      descendInputRecord_from g1
        (result @ dq @ sanitize (fst kv) @ dq @ '':'' @ asSafe (heap g1) i @ '','') rest)"
| "descendStackedBlock g (VarSet v val) =
     (case descendVariable g v of (a, g1) \<Rightarrow>
      case descendInput g1 val of
        Inl e \<Rightarrow> Inl e
      | Inr (None, g2) \<Rightarrow> Inl TypeError
      | Inr (Some i, g2) \<Rightarrow>
          let g3 = g2\<lparr>heap := setInput (heap g2) a i\<rparr>;
              vsrc = v_source (heap g3 a);
              g4 = g3\<lparr>source := source g3 @ vsrc @ '' = '' @ asSafe (heap g3) i @ '';'' @ nl\<rparr>
          in Inr (if var_isCloud v
                  then g4\<lparr>source := source g4 @ ''runtime.ioDevices.cloud.requestUpdateVariable('' @
                                      dq @ sanitize (var_name v) @ dq @ '', '' @ vsrc @ '');'' @ nl\<rparr>
                  else g4))"
| "descendStackedBlock g (ControlWait seconds) =
     (case localVariables_next g of (duration, g1) \<Rightarrow>
      let g2 = g1\<lparr>source := source g1 @ ''thread.timer = timer();'' @ nl\<rparr>;
          old = source g2 in
      case defined (descendInput g2 seconds) of Inl e \<Rightarrow> Inl e | Inr (i, g3) \<Rightarrow>
      let g4 = g3\<lparr>source := old @ ''var '' @ duration @ '' = Math.max(0, 1000 * '' @
                               asNumber (heap g3) i @ '');'' @ nl\<rparr>;
          g5 = requestRedraw g4 in
      case yieldNotWarp g5 of Inl e \<Rightarrow> Inl e | Inr g6 \<Rightarrow>
      let g7 = g6\<lparr>source := source g6 @ ''while (thread.timer.timeElapsed() < '' @ duration @
                               '') {'' @ nl\<rparr> in
      case yieldStuckOrNotWarp g7 of Inl e \<Rightarrow> Inl e | Inr g8 \<Rightarrow>
      Inr (g8\<lparr>source := source g8 @ ''}'' @ nl @ ''thread.timer = null;'' @ nl\<rparr>))"
| "descendStackedBlock g (ControlRepeat count body) =
     (case localVariables_next g of (i, g1) \<Rightarrow>
      let old = source g1 in
      case defined (descendInput g1 count) of Inl e \<Rightarrow> Inl e | Inr (t, g2) \<Rightarrow>
      let g3 = g2\<lparr>source := old @ ''for (var '' @ i @ '' = '' @ asNumber (heap g2) t @ ''; '' @
                               i @ '' >= 0.5; '' @ i @ ''--) {'' @ nl\<rparr> in
      case descendStack g3 body (new_Frame True) of Inl e \<Rightarrow> Inl e | Inr g4 \<Rightarrow>
      case yieldLoop g4 of Inl e \<Rightarrow> Inl e | Inr g5 \<Rightarrow>
      Inr (g5\<lparr>source := source g5 @ ''}'' @ nl\<rparr>))"
| "descendStackedBlock g (EventBroadcast b) =
     (let old = source g in
      case defined (descendInput g b) of Inl e \<Rightarrow> Inl e | Inr (i, g1) \<Rightarrow>
      Inr (resetVariableInputs
             (g1\<lparr>source := old @ startHats_broadcast (asString (heap g1) i) @ '';'' @ nl\<rparr>)))"
| "descendStackedBlock g (EventBroadcastAndWait b) =
     (let old = source g in
      case defined (descendInput g b) of Inl e \<Rightarrow> Inl e | Inr (i, g1) \<Rightarrow>
      yielded (g1\<lparr>source := old @ ''yield* waitThreads('' @
                                 startHats_broadcast (asString (heap g1) i) @ '');'' @ nl\<rparr>))"
| "descendStackedBlock g (ProceduresCall ty code variant args) =
     (case procedures g variant of
        None \<Rightarrow> Inl TypeError
      | Some procedureData \<Rightarrow>
          if p_stack procedureData = None then Inr g
          else
            case (if \<not> isWarp g \<and> Some code = s_procedureCode (script g)
                  then yieldNotWarp g else Inr g) of
              Inl e \<Rightarrow> Inl e
            | Inr g1 \<Rightarrow>
                if p_yields procedureData \<and> \<not> s_yields (script g1)
                then Inl (Error ''Script uses yielding procedure but is not marked as yielding.'')
                else
                  let g2 = g1\<lparr>source := source g1 @
                                 (if p_yields procedureData then ''yield* '' else []) @
                                 ''thread.procedures['' @ dq @ sanitize variant @ dq @ ''](''\<rparr> in
                  case (if p_arguments procedureData \<noteq> []
                        then (case descendArguments g2 args of
                                Inl e \<Rightarrow> Inl e
                              | Inr (as, g3) \<Rightarrow> Inr (g3\<lparr>source := source g3 @ join as '',''\<rparr>))
                        else Inr g2) of
                    Inl e \<Rightarrow> Inl e
                  | Inr g4 \<Rightarrow>
                      let g5 = g4\<lparr>source := source g4 @ '');'' @ nl\<rparr>
                      in if ty = ''hat'' then Inl (Error ''custom hat blocks are not suported'')
                         else Inr (resetVariableInputs g5))"
| "descendStackedBlock g (AddonsCall code blockId arguments) =
     (case descendInputRecord_from g ''{'' arguments of
        Inl e \<Rightarrow> Inl e
      | Inr (inputs, g1) \<Rightarrow>
          let blockFunction = ''runtime.getAddonBlock('' @ dq @ sanitize code @ dq @ '').callback'';
              blockIdS = dq @ sanitize blockId @ dq
          in Inr (g1\<lparr>source := source g1 @ ''yield* executeInCompatibilityLayer('' @ inputs @ '', '' @
                                  blockFunction @ '', '' @ (if isWarp g1 then ''true'' else ''false'') @
                                  '', false, '' @ blockIdS @ '');'' @ nl\<rparr>))"
| "descendStackedBlock g ControlStopAll =
     Inr (retire (g\<lparr>source := source g @ ''runtime.stopAll();'' @ nl\<rparr>))"
| "descendStack g nodes f =
     (case descendStack_from (pushFrame (resetVariableInputs g) f) (length (frames g)) nodes of
        Inl e \<Rightarrow> Inl e
      | Inr g1 \<Rightarrow> Inr (popFrame (resetVariableInputs g1)))"
| "descendStack_from g idx [] = Inr g"
| "descendStack_from g idx (node # rest) =
     (case descendStackedBlock (g\<lparr>frames := setIsLastBlock idx (rest = []) (frames g)\<rparr>) node of
        Inl e \<Rightarrow> Inl e
      | Inr g1 \<Rightarrow> descendStack_from g1 idx rest)"

subsection \<open>The factory (lines 1610-1703)\<close>

text \<open>
  The three process-wide name pools (lines 40-50) are a state of their own, passed to
  \<open>compile\<close> and returned by it. \<^verbatim>\<open>compile\<close> ends by evaluating the factory text with
  \<^verbatim>\<open>jsexecute.scopedEval\<close>; the model stops at the text.
\<close>

record name_pools =
  factoryNameVariablePool :: nat
  functionNameVariablePool :: nat
  generatorNameVariablePool :: nat

definition isAlphaNumeric :: "char \<Rightarrow> bool" where
  "isAlphaNumeric c =
     (let n = (of_char c :: int)
      in (48 \<le> n \<and> n \<le> 57) \<or> (65 \<le> n \<and> n \<le> 90) \<or> (97 \<le> n \<and> n \<le> 122))"

text \<open>\<^verbatim>\<open>.replace(/%[\w]/g, '')\<close>.\<close>

fun remove_arguments :: "string \<Rightarrow> string" where
  "remove_arguments (c # d # cs) =
     (if c = CHR ''%'' \<and> (isAlphaNumeric d \<or> d = CHR ''_'') then remove_arguments cs
      else c # remove_arguments (d # cs))"
| "remove_arguments cs = cs"

definition getScriptName :: "gen \<Rightarrow> name_pools \<Rightarrow> bool \<Rightarrow> js_error + (string \<times> name_pools)" where
  "getScriptName g pools yields =
     (let name = (if yields then pool_next ''gen'' (generatorNameVariablePool pools)
                  else pool_next ''fun'' (functionNameVariablePool pools));
          pools1 = (if yields
                    then pools\<lparr>generatorNameVariablePool := Suc (generatorNameVariablePool pools)\<rparr>
                    else pools\<lparr>functionNameVariablePool := Suc (functionNameVariablePool pools)\<rparr>)
      in if isProcedure g then
           (case s_procedureCode (script g) of
              None \<Rightarrow> Inl TypeError
            | Some procedureCode \<Rightarrow>
                let simplifiedProcedureCode =
                      take 20 (map (\<lambda>c. if isAlphaNumeric c then c else CHR ''_'')
                                 (remove_arguments procedureCode))
                in Inr (name @ ''_'' @ simplifiedProcedureCode, pools1))
         else Inr (name, pools1))"

definition createScriptFactory :: "gen \<Rightarrow> name_pools \<Rightarrow> js_error + (string \<times> name_pools)" where
  "createScriptFactory g pools =
     (let factoryName = pool_next ''factory'' (factoryNameVariablePool pools);
          pools1 = pools\<lparr>factoryNameVariablePool := Suc (factoryNameVariablePool pools)\<rparr>;
          head = ''(function '' @ factoryName @ ''(thread) { '' @
                 ''let __target = thread.target; '' @
                 ''let target = __target; '' @
                 ''const runtime = __target.runtime; '' @
                 ''const stage = runtime.getTargetForStage();'' @ nl @
                 concat (map (\<lambda>(varValue, varName). ''const '' @ varName @ '' = '' @ varValue @ '';'' @ nl)
                           (setupVariables g)) @
                 ''return '' @
                 (if s_yields (script g) then ''function* '' else ''function '')
      in case getScriptName g pools1 (s_yields (script g)) of
           Inl e \<Rightarrow> Inl e
         | Inr (name, pools2) \<Rightarrow>
             Inr (head @ name @ '' ('' @
                  join (map (\<lambda>i. ''p'' @ decimal_digits (int i)) [0..<length (s_arguments (script g))]) '','' @
                  '') {'' @ nl @
                  ''let target = __target;'' @ nl @
                  ''if (thread.spoofing) {'' @ nl @
                  ''target = thread.spoofTarget;'' @ nl @
                  ''};'' @ nl @
                  source g @
                  (if \<not> isProcedure g then ''retire();'' @ nl else []) @
                  ''}; })'',
                  pools2))"

definition compile :: "gen \<Rightarrow> name_pools \<Rightarrow> js_error + (string \<times> name_pools)" where
  "compile g pools =
     (case (case s_stack (script g) of
              Some stack \<Rightarrow> descendStack g stack (new_Frame False)
            | None \<Rightarrow> Inr g) of
        Inl e \<Rightarrow> Inl e
      | Inr g1 \<Rightarrow> createScriptFactory g1 pools)"

section \<open>The interpolator (\<^verbatim>\<open>interpolateTargets\<close>)\<close>

text \<open>
  \<^verbatim>\<open>interpolateTargets\<close> reads each target and calls the renderer. The renderer and the
  target class are outside the sources: the model takes what the function reads from
  them as data (\<open>t_rendered\<close> is the result of \<^verbatim>\<open>_getRenderedDirectionAndScale()\<close>,
  \<open>getAABB\<close> the width and height of a drawable's bounding box) and returns the renderer
  calls in the order they are made. Numbers are real numbers here: the guards of the
  function are comparisons, and rounding, infinities and NaN are outside this model.
\<close>

record interpolation_data =
  i_x :: real
  i_y :: real
  i_direction :: real
  i_scale :: "real \<times> real"
  i_costume :: int
  i_ghost :: real

record target =
  t_x :: real
  t_y :: real
  t_ghost :: real
  t_currentCostume :: int
  t_drawableID :: nat
  t_rendered :: "real \<times> (real \<times> real)"
  t_interpolationData :: "interpolation_data option"

record runtime =
  renderer :: "(nat \<Rightarrow> real \<times> real) option"
  targets :: "target list"

datatype renderer_call =
    updateDrawablePosition nat "real \<times> real"
  | updateDrawableEffect nat string real
  | updateDrawableDirectionScale nat real "real \<times> real"

text \<open>\<^verbatim>\<open>Math.atan2\<close>.\<close>

definition atan2 :: "real \<Rightarrow> real \<Rightarrow> real" where
  "atan2 y x =
     (if 0 < x then arctan (y / x)
      else if x < 0 \<and> 0 \<le> y then arctan (y / x) + pi
      else if x < 0 then arctan (y / x) - pi
      else if 0 < y then pi / 2
      else if y < 0 then - (pi / 2)
      else 0)"

text \<open>The position part of the loop body (lines 47-63).\<close>

definition interpolatePosition :: "(nat \<Rightarrow> real \<times> real) \<Rightarrow> target \<Rightarrow> interpolation_data \<Rightarrow> renderer_call list" where
  "interpolatePosition getAABB t interpolationData =
     (let xDistance = \<bar>t_x t - i_x interpolationData\<bar>;
          yDistance = \<bar>t_y t - i_y interpolationData\<bar>
      in if 1 / 10 < xDistance \<or> 1 / 10 < yDistance then
           (let bounds = getAABB (t_drawableID t);
                xTolerance = min 50 (10 + fst bounds);
                yTolerance = min 50 (10 + snd bounds)
            in if xDistance < xTolerance \<and> yDistance < yTolerance
               then [updateDrawablePosition (t_drawableID t)
                       ((i_x interpolationData + t_x t) / 2, (i_y interpolationData + t_y t) / 2)]
               else [])
         else [])"

text \<open>The effect part (lines 65-71).\<close>

definition interpolateGhost :: "target \<Rightarrow> interpolation_data \<Rightarrow> renderer_call list" where
  "interpolateGhost t interpolationData =
     (let ghostChange = \<bar>t_ghost t - i_ghost interpolationData\<bar>
      in if 0 < ghostChange \<and> ghostChange < 25
         then [updateDrawableEffect (t_drawableID t) ''ghost''
                 ((t_ghost t + i_ghost interpolationData) / 2)]
         else [])"

text \<open>
  The direction and scale part (lines 73-112). The three local variables \<^verbatim>\<open>direction\<close>,
  \<^verbatim>\<open>scale\<close> and \<^verbatim>\<open>updateDrawableDirectionScale\<close> are threaded through the two \<^verbatim>\<open>if\<close>
  statements as the triple \<open>(direction, scale, upd)\<close>.
\<close>

definition interpolateDirectionScale :: "target \<Rightarrow> interpolation_data \<Rightarrow> renderer_call list" where
  "interpolateDirectionScale t interpolationData =
     (let costumeDidChange = (i_costume interpolationData \<noteq> t_currentCostume t)
      in if \<not> costumeDidChange then
           (let targetDirectionAndScale = t_rendered t;
                s0 = (fst targetDirectionAndScale, snd targetDirectionAndScale, False);
                s1 = (case s0 of (direction, scale, upd) \<Rightarrow>
                        if direction \<noteq> i_direction interpolationData then
                          (let currentRadians = direction * pi / 180;
                               startingRadians = i_direction interpolationData * pi / 180
                           in (atan2 (sin currentRadians + sin startingRadians)
                                     (cos currentRadians + cos startingRadians) * 180 / pi,
                               scale, True))
                        else (direction, scale, upd));
                startingScale = i_scale interpolationData;
                s2 = (case s1 of (direction, scale, upd) \<Rightarrow>
                        if fst scale \<noteq> fst startingScale \<or> snd scale \<noteq> snd startingScale then
                          (if sgn (fst scale) = sgn (fst startingScale)
                              \<and> sgn (snd scale) = sgn (snd startingScale) then
                             (let change = \<bar>fst scale - fst startingScale\<bar>
                              in if change < 100
                                 then (direction,
                                       ((fst scale + fst startingScale) / 2,
                                        (snd scale + snd startingScale) / 2),
                                       True)
                                 else (direction, scale, upd))
                           else (direction, scale, upd))
                        else (direction, scale, upd))
            in case s2 of (direction, scale, upd) \<Rightarrow>
                 if upd then [updateDrawableDirectionScale (t_drawableID t) direction scale]
                 else [])
         else [])"

definition interpolateTarget :: "(nat \<Rightarrow> real \<times> real) \<Rightarrow> target \<Rightarrow> renderer_call list" where
  "interpolateTarget getAABB t =
     (case t_interpolationData t of
        None \<Rightarrow> []
      | Some interpolationData \<Rightarrow>
          interpolatePosition getAABB t interpolationData @
          interpolateGhost t interpolationData @
          interpolateDirectionScale t interpolationData)"

definition interpolateTargets :: "runtime \<Rightarrow> renderer_call list" where
  "interpolateTargets rt =
     (case renderer rt of
        None \<Rightarrow> []
      | Some getAABB \<Rightarrow> concat (map (interpolateTarget getAABB) (targets rt)))"

section \<open>Notions used to state the properties\<close>

text \<open>
  The frame-stack rule in the words of the specification: scanning from the innermost
  frame outward, the result is true if the first frame whose is-last-block flag is false
  is a loop frame, and false otherwise.
\<close>

definition spec_isLastBlockInLoop :: "gen \<Rightarrow> bool" where
  "spec_isLastBlockInLoop g =
     (case dropWhile isLastBlock (rev (frames g)) of
        [] \<Rightarrow> False
      | f # fs \<Rightarrow> isLoop f)"

text \<open>A heap on which no \<^verbatim>\<open>_value\<close> field holds a VariableInput.\<close>

definition isVariableInput :: "input \<Rightarrow> bool" where
  \<comment> \<open>\<^verbatim>\<open>input instanceof VariableInput\<close>\<close>
  "isVariableInput i = (case i of VariableInput a \<Rightarrow> True | _ \<Rightarrow> False)"

definition no_variable_values :: "heap \<Rightarrow> bool" where
  "no_variable_values h =
     (\<forall>a. case v_value (h a) of None \<Rightarrow> True | Some i \<Rightarrow> \<not> isVariableInput i)"

text \<open>A heap of objects as their constructor leaves them.\<close>

definition all_new :: "heap \<Rightarrow> bool" where
  "all_new h = (\<forall>a. v_type (h a) = TYPE_UNKNOWN \<and> v_value (h a) = None)"

text \<open>A sequence of calls \<^verbatim>\<open>object.setInput(input)\<close>, each given by the object's address.\<close>

fun setInputs :: "heap \<Rightarrow> (nat \<times> input) list \<Rightarrow> heap" where
  "setInputs h [] = h"
| "setInputs h (c # cs) = setInputs (setInput h (fst c) (snd c)) cs"

text \<open>The emitted text contains a \<^verbatim>\<open>yield\<close> or \<^verbatim>\<open>yield*\<close>.\<close>

definition emits_yield :: "string \<Rightarrow> bool" where
  "emits_yield src = sublist ''yield'' src"

text \<open>The text emitted by a lowering step that did not throw.\<close>

definition emitted :: "js_error + gen \<Rightarrow> string option" where
  "emitted r = (case r of Inl e \<Rightarrow> None | Inr g \<Rightarrow> Some (source g))"

text \<open>
  Two generator states agree on what the constructor copies from the script header and
  on the procedure table.
\<close>

definition same_header :: "gen \<Rightarrow> gen \<Rightarrow> bool" where
  "same_header g g' =
     (script g' = script g \<and> procedures g' = procedures g \<and> isWarp g' = isWarp g
      \<and> isProcedure g' = isProcedure g \<and> warpTimer g' = warpTimer g)"


section \<open>Example inputs\<close>

text \<open>A script that is not marked as yielding, one that is, and one that runs in warp mode.\<close>

definition plain_script :: script where
  "plain_script =
     \<lparr>s_stack = None, s_yields = False, s_isWarp = False, s_isProcedure = False,
      s_warpTimer = False, s_procedureCode = None, s_arguments = []\<rparr>"

definition yielding_script :: script where
  "yielding_script = plain_script\<lparr>s_yields := True\<rparr>"

definition warp_script :: script where
  "warp_script = plain_script\<lparr>s_yields := True, s_isWarp := True\<rparr>"

definition no_procedures :: "string \<Rightarrow> procedure_data option" where
  "no_procedures = Map.empty"

definition variable_x :: variable where
  "variable_x = \<lparr>var_id = ''x'', var_scope = ''target'', var_name = ''x'', var_isCloud = False\<rparr>"

definition zero :: jsval where
  "zero = JNumber (JFinite False 0 0)"

definition new_heap :: heap where
  "new_heap = (\<lambda>a. new_VariableInput [])"

definition new_pools :: name_pools where
  "new_pools =
     \<lparr>factoryNameVariablePool = 0, functionNameVariablePool = 0, generatorNameVariablePool = 0\<rparr>"

text \<open>
  A script whose only block sets a variable to the result of a broadcast function, with a
  header that does not declare \<^verbatim>\<open>yields\<close>, and the factory text that \<open>compile\<close> returns
  for it.
\<close>

definition broadcast_script :: script where
  "broadcast_script = plain_script\<lparr>s_stack :=
      Some [VarSet variable_x (BroadcastFunction (Constant (JString ''m'')))]\<rparr>"

definition broadcast_factory :: string where
  "broadcast_factory =
     ''(function factory0(thread) { let __target = thread.target; let target = __target; '' @
     ''const runtime = __target.runtime; const stage = runtime.getTargetForStage();'' @ nl @
     ''const b0 = target.variables['' @ dq @ ''x'' @ dq @ ''];'' @ nl @
     ''return function fun0 () {'' @ nl @
     ''let target = __target;'' @ nl @
     ''if (thread.spoofing) {'' @ nl @
     ''target = thread.spoofTarget;'' @ nl @
     ''};'' @ nl @
     ''b0.value = (yield* (function*() {'' @
     ''var a0 = startHats('' @ dq @ ''event_whenbroadcastreceived'' @ dq @
     '', { BROADCAST_OPTION: '' @ dq @ ''m'' @ dq @ '' });'' @
     ''waitThreads(a0);'' @
     ''yield;'' @ nl @
     ''var a1 = undefined;'' @
     ''for (var a2 of a0) {'' @
     ''if (typeof a2.__evex_returnDataa !== '' @ sq @ ''undefined'' @ sq @ '') {'' @
     ''return a2.__evex_returnDataa;'' @
     ''}'' @
     ''}'' @
     ''return '' @ sq @ sq @ '';'' @
     ''})());'' @ nl @
     ''retire();'' @ nl @
     ''}; })''"

text \<open>A procedure table with one procedure whose body is empty, and one whose body is not.\<close>

definition empty_procedure :: "string \<Rightarrow> procedure_data option" where
  "empty_procedure = [''p'' \<mapsto> \<lparr>p_stack = None, p_yields = False, p_arguments = []\<rparr>]"

definition one_procedure :: "string \<Rightarrow> procedure_data option" where
  "one_procedure = [''p'' \<mapsto> \<lparr>p_stack = Some [], p_yields = False, p_arguments = []\<rparr>]"

text \<open>
  The frame stack at the first of two blocks in the body of a loop that is the last block
  of its script, and the frame stack at the last block of a stack that is the last block of
  a loop body.
\<close>

definition first_block_of_loop :: gen where
  "first_block_of_loop = (new_JSGenerator plain_script no_procedures [])\<lparr>frames :=
      [\<lparr>isLoop = False, isLastBlock = True\<rparr>, \<lparr>isLoop = True, isLastBlock = False\<rparr>]\<rparr>"

definition last_block_of_loop :: gen where
  "last_block_of_loop = (new_JSGenerator plain_script no_procedures [])\<lparr>frames :=
      [\<lparr>isLoop = False, isLastBlock = False\<rparr>, \<lparr>isLoop = True, isLastBlock = True\<rparr>,
       \<lparr>isLoop = False, isLastBlock = True\<rparr>]\<rparr>"

text \<open>Calls of \<^verbatim>\<open>setInput\<close> on new objects: a constant, another variable, the variable itself.\<close>

definition example_calls :: "(nat \<times> input) list" where
  "example_calls =
     [(0, ConstantInput (JString ''abc'') True), (1, VariableInput 0), (1, VariableInput 1),
      (2, VariableInput 2)]"

text \<open>A target whose scale grew from 100 to 120 on both axes since the snapshot.\<close>

definition grown_target :: target where
  "grown_target =
     \<lparr>t_x = 0, t_y = 0, t_ghost = 0, t_currentCostume = 0, t_drawableID = 1,
      t_rendered = (90, (120, 120)),
      t_interpolationData =
        Some \<lparr>i_x = 0, i_y = 0, i_direction = 90, i_scale = (100, 100), i_costume = 0,
              i_ghost = 0\<rparr>\<rparr>"

definition grown_runtime :: runtime where
  "grown_runtime = \<lparr>renderer = Some (\<lambda>d. (0, 0)), targets = [grown_target]\<rparr>"

section \<open>Properties of the typed values\<close>

subsection \<open>The predicates on each class\<close>

lemma isNeverNumber_simps [simp]:
  "isNeverNumber h (TypedInput src ty) = Some False"
  "isNeverNumber h (ConstantInput c safe) = Some (constant_isNeverNumber c)"
  "isNeverNumber h (VariableInput a) =
     (case v_value (h a) of Some v \<Rightarrow> isNeverNumber h v | None \<Rightarrow> Some False)"
  by (subst isNeverNumber.simps, simp add: typed_isNeverNumber_def)+

lemma isAlwaysNumber_simps [simp]:
  "isAlwaysNumber h (TypedInput src ty) = Some (ty = TYPE_NUMBER)"
  "isAlwaysNumber h (ConstantInput c safe) = Some (constant_isAlwaysNumber c)"
  "isAlwaysNumber h (VariableInput a) =
     (case v_value (h a) of Some v \<Rightarrow> isAlwaysNumber h v | None \<Rightarrow> Some False)"
  by (subst isAlwaysNumber.simps, simp add: typed_isAlwaysNumber_def)+

lemma isAlwaysNumberOrNaN_simps [simp]:
  "isAlwaysNumberOrNaN h (TypedInput src ty) = Some (ty = TYPE_NUMBER \<or> ty = TYPE_NUMBER_NAN)"
  "isAlwaysNumberOrNaN h (ConstantInput c safe) = Some (constant_isAlwaysNumber c)"
  "isAlwaysNumberOrNaN h (VariableInput a) =
     (case v_value (h a) of Some v \<Rightarrow> isAlwaysNumberOrNaN h v | None \<Rightarrow> Some False)"
  by (subst isAlwaysNumberOrNaN.simps, simp add: typed_isAlwaysNumberOrNaN_def)+

subsection \<open>Signed zero in \<^verbatim>\<open>ConstantInput.asNumber\<close>\<close>

text \<open>
  C7. For every ConstantInput, \<^verbatim>\<open>asNumber()\<close> is the text \<^verbatim>\<open>-0\<close> when the numeric
  coercion of the literal is negative zero, the text \<^verbatim>\<open>0\<close> when it is NaN or positive
  zero, and otherwise the stringified coerced number, not the text of the literal.
\<close>

theorem constant_asNumber_signed_zero:
  "constant_asNumber c =
     (if isNegativeZero (ToNumber c) then ''-0''
      else if isNaN (ToNumber c) \<or> ToNumber c = JFinite False 0 0 then ''0''
      else NumberToString (ToNumber c))"
  by (auto simp: constant_asNumber_def Let_def truthy_def isZero_def isNegativeZero_def isNaN_def)

text \<open>
  The four cases at the literals \<^verbatim>\<open>"-0"\<close>, \<^verbatim>\<open>"0"\<close>, \<^verbatim>\<open>"abc"\<close> and \<^verbatim>\<open>"010"\<close>; the last one
  is emitted as \<^verbatim>\<open>10\<close>.
\<close>

theorem constant_asNumber_signed_zero_witness:
  "constant_asNumber (JString ''-0'') = ''-0''
   \<and> constant_asNumber (JString ''0'') = ''0''
   \<and> constant_asNumber (JString ''abc'') = ''0''
   \<and> constant_asNumber (JString ''010'') = ''10''"
proof -
  have z: "StringToNumber ''-0'' = JFinite True 0 0" by code_simp
  have p: "StringToNumber ''0'' = JFinite False 0 0" by code_simp
  have n: "StringToNumber ''abc'' = JNaN" by code_simp
  have t: "StringToNumber ''010'' = JFinite False 5 1" by code_simp
  have s: "NumberToString (JFinite False 5 1) = ''10''" by code_simp
  have 1: "constant_asNumber (JString ''-0'') = ''-0''"
    using constant_asNumber_signed_zero [of "JString ''-0''"] by (simp add: z isNegativeZero_def)
  have 2: "constant_asNumber (JString ''0'') = ''0''"
    using constant_asNumber_signed_zero [of "JString ''0''"] by (simp add: p isNegativeZero_def)
  have 3: "constant_asNumber (JString ''abc'') = ''0''"
    using constant_asNumber_signed_zero [of "JString ''abc''"]
    by (simp add: n isNegativeZero_def isNaN_def)
  have 4: "constant_asNumber (JString ''010'') = ''10''"
    using constant_asNumber_signed_zero [of "JString ''010''"]
    by (simp add: t s isNegativeZero_def isNaN_def del: NumberToString.simps)
  from 1 2 3 4 show ?thesis by simp
qed

subsection \<open>\<^verbatim>\<open>ConstantInput.isAlwaysNumber\<close>\<close>

text \<open>
  C3, as stated: \<^verbatim>\<open>isAlwaysNumber()\<close> is true if and only if the numeric coercion of the
  literal is finite and not NaN and, when that coercion is zero, the trimmed text of the
  literal is not empty. The literal \<^verbatim>\<open>"Infinity"\<close> refutes it: its coercion is not finite,
  and \<^verbatim>\<open>isAlwaysNumber()\<close> is true.
\<close>

theorem constant_isAlwaysNumber_infinity:
  "constant_isAlwaysNumber (JString ''Infinity'')
   \<and> \<not> (isFiniteNumber (ToNumber (JString ''Infinity''))
         \<and> \<not> isNaN (ToNumber (JString ''Infinity''))
         \<and> (isZero (ToNumber (JString ''Infinity''))
              \<longrightarrow> trim (ToString (JString ''Infinity'')) \<noteq> []))"
  by code_simp

text \<open>
  C3, amended: for every ConstantInput, \<^verbatim>\<open>isAlwaysNumber()\<close> is true if and only if the
  numeric coercion of the literal is not NaN (it may be infinite) and, when that coercion
  is zero, the trimmed text of the literal is not empty.
\<close>

theorem constant_isAlwaysNumber_iff:
  "constant_isAlwaysNumber c \<longleftrightarrow>
     \<not> isNaN (ToNumber c) \<and> (isZero (ToNumber c) \<longrightarrow> trim (ToString c) \<noteq> [])"
  by (auto simp: constant_isAlwaysNumber_def Let_def)

theorem constant_isAlwaysNumber_iff_witness:
  "isZero (ToNumber (JString ''0'')) \<and> constant_isAlwaysNumber (JString ''0'')
   \<and> isZero (ToNumber (JString '' '')) \<and> \<not> constant_isAlwaysNumber (JString '' '')"
proof -
  have z: "isZero (ToNumber (JString ''0''))" by code_simp
  have n: "\<not> isNaN (ToNumber (JString ''0''))" by code_simp
  have t: "trim (ToString (JString ''0'')) \<noteq> []" by code_simp
  have z': "isZero (ToNumber (JString '' ''))" by code_simp
  have t': "trim (ToString (JString '' '')) = []" by code_simp
  from n t have a: "constant_isAlwaysNumber (JString ''0'')"
    by (simp add: constant_isAlwaysNumber_iff [of "JString ''0''"])
  from z' t' have b: "\<not> constant_isAlwaysNumber (JString '' '')"
    by (simp add: constant_isAlwaysNumber_iff [of "JString '' ''"])
  from z a z' b show ?thesis by simp
qed

subsection \<open>\<^verbatim>\<open>op.equals\<close> on the constants \<^verbatim>\<open>"10"\<close> and \<^verbatim>\<open>"010"\<close>\<close>

lemma constants_10_010:
  "constant_isNeverNumber (JString ''10'') = False"
  "constant_isNeverNumber (JString ''010'') = False"
  "constant_isAlwaysNumber (JString ''10'') = True"
  "constant_isAlwaysNumber (JString ''010'') = True"
  "constant_asNumber (JString ''10'') = ''10''"
  "constant_asNumber (JString ''010'') = ''10''"
  "isSafeConstantForEqualsOptimization (JString ''010'') = False"
  by code_simp+

text \<open>
  C1, as stated: for \<^verbatim>\<open>op.equals\<close> on the constants \<^verbatim>\<open>"10"\<close> and \<^verbatim>\<open>"010"\<close> the compiler
  emits the comparison of the lowercased strings, not the numeric one. In a new generator
  the result is the numeric comparison \<^verbatim>\<open>(10 === 10)\<close>, and it is not the text that the
  string rule builds.
\<close>

theorem op_equals_10_010_is_numeric:
  "(case descendInput (new_JSGenerator plain_script no_procedures [])
           (OpEquals (Constant (JString ''10'')) (Constant (JString ''010''))) of
      Inr (Some i, g) \<Rightarrow>
        i = TypedInput ''(10 === 10)'' TYPE_BOOLEAN
        \<and> i \<noteq> lowercase_compare (heap g) ''==='' (ConstantInput (JString ''10'') True)
                 (ConstantInput (JString ''010'') True)
    | _ \<Rightarrow> False)"
  by code_simp

text \<open>
  C1, amended: for \<^verbatim>\<open>op.equals\<close> on the constants \<^verbatim>\<open>"10"\<close> and \<^verbatim>\<open>"010"\<close> the compiler
  emits the numeric comparison \<^verbatim>\<open>(10 === 10)\<close>, in every generator state and without
  changing it: neither constant is never-number and both are always-number, and that rule
  comes before the test whether a constant reads back as its own text, which \<^verbatim>\<open>"010"\<close>
  fails.
\<close>

theorem op_equals_10_010:
  "descendInput g (OpEquals (Constant (JString ''10'')) (Constant (JString ''010'')))
     = Inr (Some (TypedInput ''(10 === 10)'' TYPE_BOOLEAN), g)
   \<and> isNeverNumber (heap g) (safeConstantInput g (JString ''10'')) = Some False
   \<and> isNeverNumber (heap g) (safeConstantInput g (JString ''010'')) = Some False
   \<and> isAlwaysNumber (heap g) (safeConstantInput g (JString ''10'')) = Some True
   \<and> isAlwaysNumber (heap g) (safeConstantInput g (JString ''010'')) = Some True
   \<and> \<not> isSafeConstantForEqualsOptimization (JString ''010'')"
  by (simp add: safeConstantInput_def op_equals_def constants_10_010)

theorem op_equals_10_010_witness:
  "(case descendInput (new_JSGenerator plain_script no_procedures [])
           (OpEquals (Constant (JString ''10'')) (Constant (JString ''010''))) of
      Inr (i, g) \<Rightarrow> i = Some (TypedInput ''(10 === 10)'' TYPE_BOOLEAN)
    | Inl e \<Rightarrow> False)"
  using op_equals_10_010 [of "new_JSGenerator plain_script no_procedures []"] by simp

subsection \<open>\<^verbatim>\<open>setInput\<close> never stores a variable\<close>

lemma no_variable_values_setInput:
  "no_variable_values h \<Longrightarrow> no_variable_values (setInput h a i)"
  by (cases i) (auto simp: no_variable_values_def setInput_def Let_def isVariableInput_def
        split: option.splits input.splits)

lemma all_new_no_variable_values: "all_new h \<Longrightarrow> no_variable_values h"
  by (simp add: all_new_def no_variable_values_def)

lemma no_variable_values_setInputs:
  "no_variable_values h \<Longrightarrow> no_variable_values (setInputs h cs)"
  by (induction cs arbitrary: h) (simp_all add: no_variable_values_setInput)

lemma predicates_terminate:
  assumes "no_variable_values h"
  shows "isAlwaysNumber h i \<noteq> None \<and> isAlwaysNumberOrNaN h i \<noteq> None \<and> isNeverNumber h i \<noteq> None"
proof (cases i)
  case (VariableInput a)
  show ?thesis
  proof (cases "v_value (h a)")
    case None
    with VariableInput show ?thesis by simp
  next
    case (Some v)
    with assms have "\<not> isVariableInput v"
      by (auto simp: no_variable_values_def split: option.splits dest: spec [of _ a])
    then show ?thesis using VariableInput Some
      by (cases v) (simp_all add: isVariableInput_def)
  qed
qed simp_all

lemma setInput_self:
  "no_variable_values h \<Longrightarrow> v_value (setInput h a (VariableInput a) a) = v_value (h a)"
  by (auto simp: setInput_def Let_def split: option.splits)

lemma example_calls_values:
  "v_value (setInputs new_heap example_calls 1) = Some (ConstantInput (JString ''abc'') True)"
  "v_value (setInputs new_heap example_calls 2) = None"
  by (simp_all add: example_calls_def setInput_def new_heap_def new_VariableInput_def)

lemma all_new_new_heap: "all_new new_heap"
  by (simp add: all_new_def new_heap_def new_VariableInput_def)

text \<open>
  C6. After any sequence of \<^verbatim>\<open>setInput\<close> calls on new VariableInput objects, no
  object's last-assigned value is a VariableInput, so \<^verbatim>\<open>isAlwaysNumber\<close>,
  \<^verbatim>\<open>isAlwaysNumberOrNaN\<close> and \<^verbatim>\<open>isNeverNumber\<close> return on every input; and
  \<^verbatim>\<open>A.setInput(A)\<close> leaves the last-assigned value of \<open>A\<close> as it was: the earlier value,
  which is not a variable, or none.
\<close>

theorem setInput_never_stores_a_variable:
  assumes "all_new h0"
  shows "no_variable_values (setInputs h0 calls)
         \<and> (\<forall>i. isAlwaysNumber (setInputs h0 calls) i \<noteq> None
                \<and> isAlwaysNumberOrNaN (setInputs h0 calls) i \<noteq> None
                \<and> isNeverNumber (setInputs h0 calls) i \<noteq> None)
         \<and> (\<forall>a. v_value (setInput (setInputs h0 calls) a (VariableInput a) a)
                  = v_value (setInputs h0 calls a))"
proof -
  have inv: "no_variable_values (setInputs h0 calls)"
    using assms by (simp add: all_new_no_variable_values no_variable_values_setInputs)
  then show ?thesis
    by (simp add: predicates_terminate setInput_self)
qed

theorem setInput_never_stores_a_variable_witness:
  "all_new new_heap
   \<and> v_value (setInputs new_heap example_calls 1) = Some (ConstantInput (JString ''abc'') True)
   \<and> v_value (setInputs new_heap example_calls 2) = None
   \<and> isNeverNumber (setInputs new_heap example_calls) (VariableInput 1) \<noteq> None
   \<and> v_value (setInput (setInputs new_heap example_calls) 1 (VariableInput 1) 1)
       = Some (ConstantInput (JString ''abc'') True)"
proof -
  note t = setInput_never_stores_a_variable [OF all_new_new_heap, of example_calls]
  from t have "isNeverNumber (setInputs new_heap example_calls) (VariableInput 1) \<noteq> None"
    by blast
  moreover from t have "v_value (setInput (setInputs new_heap example_calls) 1 (VariableInput 1) 1)
       = v_value (setInputs new_heap example_calls 1)"
    by blast
  ultimately show ?thesis
    using all_new_new_heap example_calls_values by simp
qed

subsection \<open>TypedInput operands and the string rule of the comparisons\<close>

lemma never_number_cases:
  assumes "no_variable_values h"
  shows "isNeverNumber h i = Some True \<or> isNeverNumber h i = Some False"
  using predicates_terminate [OF assms, of i] by auto

lemma always_number_cases:
  assumes "no_variable_values h"
  shows "isAlwaysNumber h i = Some True \<or> isAlwaysNumber h i = Some False"
    and "isAlwaysNumberOrNaN h i = Some True \<or> isAlwaysNumberOrNaN h i = Some False"
  using predicates_terminate [OF assms, of i] by auto

text \<open>
  On a heap where no variable's last-assigned value is a variable, \<^verbatim>\<open>isNeverNumber()\<close> is
  true exactly for a constant whose numeric coercion is NaN and for a variable whose
  last-assigned value is such a constant.
\<close>

lemma never_number_iff:
  assumes inv: "no_variable_values h"
  shows "isNeverNumber h i = Some True \<longleftrightarrow>
           (\<exists>c safe. isNaN (ToNumber c)
              \<and> (i = ConstantInput c safe
                   \<or> (\<exists>a. i = VariableInput a \<and> v_value (h a) = Some (ConstantInput c safe))))"
proof (cases i)
  case (VariableInput a)
  show ?thesis
  proof (cases "v_value (h a)")
    case None
    with VariableInput show ?thesis by simp
  next
    case (Some v)
    with inv have "\<not> isVariableInput v"
      by (auto simp: no_variable_values_def split: option.splits dest: spec [of _ a])
    then show ?thesis using VariableInput Some
      by (cases v) (auto simp: isVariableInput_def constant_isNeverNumber_def)
  qed
qed (auto simp: constant_isNeverNumber_def)

text \<open>
  An operand that is never a number is neither always a number nor always a number or
  NaN, so in \<^verbatim>\<open>op.less\<close> and \<^verbatim>\<open>op.greater\<close> the two numeric rules, which come first, do not
  apply to it.
\<close>

lemma never_number_not_always:
  assumes inv: "no_variable_values h" and nn: "isNeverNumber h i = Some True"
  shows "isAlwaysNumber h i = Some False" and "isAlwaysNumberOrNaN h i = Some False"
proof -
  from nn never_number_iff [OF inv, of i] obtain c safe where
    nan: "isNaN (ToNumber c)" and
    i: "i = ConstantInput c safe
        \<or> (\<exists>a. i = VariableInput a \<and> v_value (h a) = Some (ConstantInput c safe))"
    by blast
  from nan have c: "constant_isAlwaysNumber c = False"
    by (simp add: constant_isAlwaysNumber_def)
  from i c show "isAlwaysNumber h i = Some False" by auto
  from i c show "isAlwaysNumberOrNaN h i = Some False" by auto
qed

lemma op_equals_rule:
  assumes inv: "no_variable_values h"
  shows "op_equals h l r =
     (if isNeverNumber h l = Some True \<or> isNeverNumber h r = Some True
      then Inr (lowercase_compare h ''==='' l r)
      else Inr (TypedInput
             (if isAlwaysNumber h l = Some True \<and> isAlwaysNumber h r = Some True
                 \<or> isAlwaysNumber h l = Some True \<and> isConstantInput l
                      \<and> isSafeConstantForEqualsOptimization (constantValue l)
                 \<or> isAlwaysNumber h r = Some True \<and> isConstantInput r
                      \<and> isSafeConstantForEqualsOptimization (constantValue r)
              then ''('' @ asNumber h l @ '' === '' @ asNumber h r @ '')''
              else ''compareEqual('' @ asUnknown h l @ '', '' @ asUnknown h r @ '')'')
             TYPE_BOOLEAN))"
  using never_number_cases [OF inv, of l] never_number_cases [OF inv, of r]
    always_number_cases(1) [OF inv, of l] always_number_cases(1) [OF inv, of r]
  by (auto simp: op_equals_def)

lemma op_less_rule:
  assumes inv: "no_variable_values h"
  shows "op_less h l r =
     (if isNeverNumber h l = Some True \<or> isNeverNumber h r = Some True
      then Inr (lowercase_compare h ''<'' l r)
      else Inr (TypedInput
             (if isAlwaysNumberOrNaN h l = Some True \<and> isAlwaysNumber h r = Some True
              then ''('' @ asNumberOrNaN h l @ '' < '' @ asNumber h r @ '')''
              else if isAlwaysNumber h l = Some True \<and> isAlwaysNumberOrNaN h r = Some True
              then ''!('' @ asNumber h l @ '' >= '' @ asNumberOrNaN h r @ '')''
              else ''compareLessThan('' @ asUnknown h l @ '', '' @ asUnknown h r @ '')'')
             TYPE_BOOLEAN))"
  using never_number_cases [OF inv, of l] never_number_cases [OF inv, of r]
    always_number_cases [OF inv, of l] always_number_cases [OF inv, of r]
    never_number_not_always [OF inv, of l] never_number_not_always [OF inv, of r]
  by (auto simp: op_less_def)

lemma op_greater_rule:
  assumes inv: "no_variable_values h"
  shows "op_greater h l r =
     (if isNeverNumber h l = Some True \<or> isNeverNumber h r = Some True
      then Inr (lowercase_compare h ''>'' l r)
      else Inr (TypedInput
             (if isAlwaysNumber h l = Some True \<and> isAlwaysNumberOrNaN h r = Some True
              then ''('' @ asNumber h l @ '' > '' @ asNumberOrNaN h r @ '')''
              else if isAlwaysNumberOrNaN h l = Some True \<and> isAlwaysNumber h r = Some True
              then ''!('' @ asNumberOrNaN h l @ '' <= '' @ asNumber h r @ '')''
              else ''compareGreaterThan('' @ asUnknown h l @ '', '' @ asUnknown h r @ '')'')
             TYPE_BOOLEAN))"
  using never_number_cases [OF inv, of l] never_number_cases [OF inv, of r]
    always_number_cases [OF inv, of l] always_number_cases [OF inv, of r]
    never_number_not_always [OF inv, of l] never_number_not_always [OF inv, of r]
  by (auto simp: op_greater_def)

lemma typed_operands:
  "op_equals h (TypedInput s1 t1) (TypedInput s2 t2) =
       Inr (TypedInput (if t1 = TYPE_NUMBER \<and> t2 = TYPE_NUMBER
                        then ''('' @ s1 @ '' === '' @ s2 @ '')''
                        else ''compareEqual('' @ s1 @ '', '' @ s2 @ '')'') TYPE_BOOLEAN)"
  "op_less h (TypedInput s1 t1) (TypedInput s2 t2) =
       Inr (TypedInput (if (t1 = TYPE_NUMBER \<or> t1 = TYPE_NUMBER_NAN) \<and> t2 = TYPE_NUMBER
                        then ''('' @ s1 @ '' < '' @ s2 @ '')''
                        else if t1 = TYPE_NUMBER \<and> t2 = TYPE_NUMBER_NAN
                        then ''!('' @ s1 @ '' >= '' @ s2 @ '')''
                        else ''compareLessThan('' @ s1 @ '', '' @ s2 @ '')'') TYPE_BOOLEAN)"
  "op_greater h (TypedInput s1 t1) (TypedInput s2 t2) =
       Inr (TypedInput (if t1 = TYPE_NUMBER \<and> (t2 = TYPE_NUMBER \<or> t2 = TYPE_NUMBER_NAN)
                        then ''('' @ s1 @ '' > '' @ s2 @ '')''
                        else if t1 = TYPE_NUMBER_NAN \<and> t2 = TYPE_NUMBER
                        then ''!('' @ s1 @ '' <= '' @ s2 @ '')''
                        else ''compareGreaterThan('' @ s1 @ '', '' @ s2 @ '')'') TYPE_BOOLEAN)"
proof -
  show "op_equals h (TypedInput s1 t1) (TypedInput s2 t2) =
       Inr (TypedInput (if t1 = TYPE_NUMBER \<and> t2 = TYPE_NUMBER
                        then ''('' @ s1 @ '' === '' @ s2 @ '')''
                        else ''compareEqual('' @ s1 @ '', '' @ s2 @ '')'') TYPE_BOOLEAN)"
    by (simp add: op_equals_def isConstantInput_def typed_asNumber_def)
  show "op_less h (TypedInput s1 t1) (TypedInput s2 t2) =
       Inr (TypedInput (if (t1 = TYPE_NUMBER \<or> t1 = TYPE_NUMBER_NAN) \<and> t2 = TYPE_NUMBER
                        then ''('' @ s1 @ '' < '' @ s2 @ '')''
                        else if t1 = TYPE_NUMBER \<and> t2 = TYPE_NUMBER_NAN
                        then ''!('' @ s1 @ '' >= '' @ s2 @ '')''
                        else ''compareLessThan('' @ s1 @ '', '' @ s2 @ '')'') TYPE_BOOLEAN)"
    by (auto simp: op_less_def typed_asNumber_def typed_asNumberOrNaN_def)
  show "op_greater h (TypedInput s1 t1) (TypedInput s2 t2) =
       Inr (TypedInput (if t1 = TYPE_NUMBER \<and> (t2 = TYPE_NUMBER \<or> t2 = TYPE_NUMBER_NAN)
                        then ''('' @ s1 @ '' > '' @ s2 @ '')''
                        else if t1 = TYPE_NUMBER_NAN \<and> t2 = TYPE_NUMBER
                        then ''!('' @ s1 @ '' <= '' @ s2 @ '')''
                        else ''compareGreaterThan('' @ s1 @ '', '' @ s2 @ '')'') TYPE_BOOLEAN)"
    by (auto simp: op_greater_def typed_asNumber_def typed_asNumberOrNaN_def)
qed

text \<open>
  C10. For every TypedInput, whatever its type tag, \<^verbatim>\<open>isNeverNumber()\<close> is false, and
  \<^verbatim>\<open>op.equals\<close>, \<^verbatim>\<open>op.less\<close> and \<^verbatim>\<open>op.greater\<close> on two TypedInput operands never take the
  rule that compares lowercased strings: the result is a numeric comparison or the call of
  the runtime helper. On a heap where no variable's last-assigned value is a variable:

  \<^item> \<^verbatim>\<open>isNeverNumber()\<close> is true exactly for a ConstantInput whose numeric coercion is NaN
    and for a VariableInput whose last-assigned value is such a constant;

  \<^item> for any two operands, each of the three comparisons returns the comparison of the
    lowercased strings when \<^verbatim>\<open>isNeverNumber()\<close> is true of the left or of the right operand,
    and otherwise a numeric comparison or the call of the runtime helper, as the other
    rules of its case say.

  So with a TypedInput on one side the string rule is taken exactly when the operand on
  the other side is a NaN constant or a variable that holds one. The three cases of
  \<^verbatim>\<open>descendInput\<close> return what these rules give for the two lowered operands, on the heap
  that lowering them leaves.
\<close>

theorem typed_input_never_string_compare:
  "isNeverNumber h (TypedInput src ty) = Some False
   \<and> op_equals h (TypedInput s1 t1) (TypedInput s2 t2) =
       Inr (TypedInput (if t1 = TYPE_NUMBER \<and> t2 = TYPE_NUMBER
                        then ''('' @ s1 @ '' === '' @ s2 @ '')''
                        else ''compareEqual('' @ s1 @ '', '' @ s2 @ '')'') TYPE_BOOLEAN)
   \<and> op_less h (TypedInput s1 t1) (TypedInput s2 t2) =
       Inr (TypedInput (if (t1 = TYPE_NUMBER \<or> t1 = TYPE_NUMBER_NAN) \<and> t2 = TYPE_NUMBER
                        then ''('' @ s1 @ '' < '' @ s2 @ '')''
                        else if t1 = TYPE_NUMBER \<and> t2 = TYPE_NUMBER_NAN
                        then ''!('' @ s1 @ '' >= '' @ s2 @ '')''
                        else ''compareLessThan('' @ s1 @ '', '' @ s2 @ '')'') TYPE_BOOLEAN)
   \<and> op_greater h (TypedInput s1 t1) (TypedInput s2 t2) =
       Inr (TypedInput (if t1 = TYPE_NUMBER \<and> (t2 = TYPE_NUMBER \<or> t2 = TYPE_NUMBER_NAN)
                        then ''('' @ s1 @ '' > '' @ s2 @ '')''
                        else if t1 = TYPE_NUMBER_NAN \<and> t2 = TYPE_NUMBER
                        then ''!('' @ s1 @ '' <= '' @ s2 @ '')''
                        else ''compareGreaterThan('' @ s1 @ '', '' @ s2 @ '')'') TYPE_BOOLEAN)
   \<and> (no_variable_values h \<longrightarrow>
        (isNeverNumber h i = Some True \<longleftrightarrow>
           (\<exists>c safe. isNaN (ToNumber c)
              \<and> (i = ConstantInput c safe
                   \<or> (\<exists>a. i = VariableInput a \<and> v_value (h a) = Some (ConstantInput c safe)))))
        \<and> op_equals h l r =
            (if isNeverNumber h l = Some True \<or> isNeverNumber h r = Some True
             then Inr (lowercase_compare h ''==='' l r)
             else Inr (TypedInput
                    (if isAlwaysNumber h l = Some True \<and> isAlwaysNumber h r = Some True
                        \<or> isAlwaysNumber h l = Some True \<and> isConstantInput l
                             \<and> isSafeConstantForEqualsOptimization (constantValue l)
                        \<or> isAlwaysNumber h r = Some True \<and> isConstantInput r
                             \<and> isSafeConstantForEqualsOptimization (constantValue r)
                     then ''('' @ asNumber h l @ '' === '' @ asNumber h r @ '')''
                     else ''compareEqual('' @ asUnknown h l @ '', '' @ asUnknown h r @ '')'')
                    TYPE_BOOLEAN))
        \<and> op_less h l r =
            (if isNeverNumber h l = Some True \<or> isNeverNumber h r = Some True
             then Inr (lowercase_compare h ''<'' l r)
             else Inr (TypedInput
                    (if isAlwaysNumberOrNaN h l = Some True \<and> isAlwaysNumber h r = Some True
                     then ''('' @ asNumberOrNaN h l @ '' < '' @ asNumber h r @ '')''
                     else if isAlwaysNumber h l = Some True \<and> isAlwaysNumberOrNaN h r = Some True
                     then ''!('' @ asNumber h l @ '' >= '' @ asNumberOrNaN h r @ '')''
                     else ''compareLessThan('' @ asUnknown h l @ '', '' @ asUnknown h r @ '')'')
                    TYPE_BOOLEAN))
        \<and> op_greater h l r =
            (if isNeverNumber h l = Some True \<or> isNeverNumber h r = Some True
             then Inr (lowercase_compare h ''>'' l r)
             else Inr (TypedInput
                    (if isAlwaysNumber h l = Some True \<and> isAlwaysNumberOrNaN h r = Some True
                     then ''('' @ asNumber h l @ '' > '' @ asNumberOrNaN h r @ '')''
                     else if isAlwaysNumberOrNaN h l = Some True \<and> isAlwaysNumber h r = Some True
                     then ''!('' @ asNumberOrNaN h l @ '' <= '' @ asNumber h r @ '')''
                     else ''compareGreaterThan('' @ asUnknown h l @ '', '' @ asUnknown h r @ '')'')
                    TYPE_BOOLEAN)))
   \<and> (descendInput g a = Inr (Some li, g1) \<and> descendInput g1 b = Inr (Some ri, g2) \<longrightarrow>
        descendInput g (OpEquals a b) =
          (case op_equals (heap g2) li ri of Inl e \<Rightarrow> Inl e | Inr res \<Rightarrow> Inr (Some res, g2))
        \<and> descendInput g (OpLess a b) =
          (case op_less (heap g2) li ri of Inl e \<Rightarrow> Inl e | Inr res \<Rightarrow> Inr (Some res, g2))
        \<and> descendInput g (OpGreater a b) =
          (case op_greater (heap g2) li ri of Inl e \<Rightarrow> Inl e | Inr res \<Rightarrow> Inr (Some res, g2)))"
proof -
  have 1: "isNeverNumber h (TypedInput src ty) = Some False" by simp
  note 2 = typed_operands [of h s1 t1 s2 t2]
  note 3 = never_number_iff [of h i] op_equals_rule [of h l r] op_less_rule [of h l r]
    op_greater_rule [of h l r]
  have 4: "descendInput g (OpEquals a b) =
          (case op_equals (heap g2) li ri of Inl e \<Rightarrow> Inl e | Inr res \<Rightarrow> Inr (Some res, g2))
        \<and> descendInput g (OpLess a b) =
          (case op_less (heap g2) li ri of Inl e \<Rightarrow> Inl e | Inr res \<Rightarrow> Inr (Some res, g2))
        \<and> descendInput g (OpGreater a b) =
          (case op_greater (heap g2) li ri of Inl e \<Rightarrow> Inl e | Inr res \<Rightarrow> Inr (Some res, g2))"
    if "descendInput g a = Inr (Some li, g1)" "descendInput g1 b = Inr (Some ri, g2)"
    using that by simp
  from 1 2 3 4 show ?thesis by blast
qed

lemma comparison_constants:
  "isNaN (ToNumber (JString ''abc''))"
  "constant_isNeverNumber (JString ''abc'') = True"
  "constant_asString (JString ''abc'') = [CHR 0x22] @ ''abc'' @ [CHR 0x22]"
  "isSafeConstantForEqualsOptimization (JString ''10'') = True"
  "constant_asNumber (JString ''1'') = ''1''"
  "constant_asNumber (JString ''2'') = ''2''"
  by code_simp+

text \<open>
  On the heap left by the example calls, where variable 1 holds the constant \<^verbatim>\<open>"abc"\<close>:
  a string-typed operand \<open>a\<close> against the constant \<^verbatim>\<open>"10"\<close> gives a numeric comparison,
  against the constant \<^verbatim>\<open>"abc"\<close> or against variable 1 the comparison of the lowercased
  strings, and against another string-typed operand the call of the runtime helper. In a
  new generator, \<^verbatim>\<open>op.less\<close> of a sum and the constant \<^verbatim>\<open>"abc"\<close> is the comparison of the
  lowercased strings.
\<close>

theorem typed_input_never_string_compare_witness:
  "no_variable_values (setInputs new_heap example_calls)
   \<and> isNeverNumber (setInputs new_heap example_calls) (VariableInput 1) = Some True
   \<and> op_equals (setInputs new_heap example_calls)
        (TypedInput ''a'' TYPE_STRING) (ConstantInput (JString ''10'') True)
       = Inr (TypedInput ''((+a || 0) === 10)'' TYPE_BOOLEAN)
   \<and> op_equals (setInputs new_heap example_calls)
        (TypedInput ''a'' TYPE_STRING) (ConstantInput (JString ''abc'') True)
       = Inr (TypedInput (''(a.toLowerCase() === '' @ [CHR 0x22] @ ''abc'' @ [CHR 0x22] @
                          ''.toLowerCase())'') TYPE_BOOLEAN)
   \<and> op_less (setInputs new_heap example_calls)
        (VariableInput 1) (TypedInput ''a'' TYPE_BOOLEAN)
       = Inr (lowercase_compare (setInputs new_heap example_calls) ''<''
                (VariableInput 1) (TypedInput ''a'' TYPE_BOOLEAN))
   \<and> op_greater (setInputs new_heap example_calls)
        (TypedInput ''a'' TYPE_STRING) (TypedInput ''b'' TYPE_STRING)
       = Inr (TypedInput ''compareGreaterThan(a, b)'' TYPE_BOOLEAN)
   \<and> descendInput (new_JSGenerator plain_script no_procedures [])
        (OpLess (OpAdd (Constant (JString ''1'')) (Constant (JString ''2'')))
                (Constant (JString ''abc'')))
       = Inr (Some (TypedInput (''(('' @ [CHR 0x22, CHR 0x22] @ '' + (1 + 2)).toLowerCase() < '' @
                                [CHR 0x22] @ ''abc'' @ [CHR 0x22] @ ''.toLowerCase())'')
                      TYPE_BOOLEAN),
              new_JSGenerator plain_script no_procedures [])"
proof -
  let ?h = "setInputs new_heap example_calls"
  let ?g = "new_JSGenerator plain_script no_procedures []"
  let ?sum = "OpAdd (Constant (JString ''1'')) (Constant (JString ''2''))"
  let ?li = "TypedInput ''(1 + 2)'' TYPE_NUMBER_NAN"
  let ?ri = "ConstantInput (JString ''abc'') True"
  have a: "descendInput ?g ?sum = Inr (Some ?li, ?g)"
    by (simp add: defined_def safeConstantInput_def comparison_constants)
  have b: "descendInput ?g (Constant (JString ''abc'')) = Inr (Some ?ri, ?g)"
    by (simp add: safeConstantInput_def new_JSGenerator_def)
  have hg: "no_variable_values (heap ?g)"
    by (simp add: no_variable_values_def new_JSGenerator_def new_VariableInput_def)
  have d1: "descendInput ?g (OpLess ?sum (Constant (JString ''abc''))) =
       Inr (Some (TypedInput (''(('' @ [CHR 0x22, CHR 0x22] @ '' + (1 + 2)).toLowerCase() < '' @
                                [CHR 0x22] @ ''abc'' @ [CHR 0x22] @ ''.toLowerCase())'')
                      TYPE_BOOLEAN), ?g)"
    using typed_input_never_string_compare [where h = "heap ?g" and l = ?li and r = ?ri
        and g = ?g and a = ?sum and li = ?li and ?g1.0 = ?g and b = "Constant (JString ''abc'')"
        and ri = ?ri and ?g2.0 = ?g] a b hg
    by (simp add: comparison_constants lowercase_compare_def typed_asString_def)
  have inv: "no_variable_values ?h"
    by (simp add: all_new_new_heap all_new_no_variable_values no_variable_values_setInputs)
  have var: "isNeverNumber ?h (VariableInput 1) = Some True"
    using typed_input_never_string_compare [where h = ?h and i = "VariableInput 1"] inv
      comparison_constants(1) example_calls_values(1) by blast
  have e1: "op_equals ?h (TypedInput ''a'' TYPE_STRING) (ConstantInput (JString ''10'') True)
       = Inr (TypedInput ''((+a || 0) === 10)'' TYPE_BOOLEAN)"
    using typed_input_never_string_compare [where h = ?h and l = "TypedInput ''a'' TYPE_STRING"
        and r = "ConstantInput (JString ''10'') True"] inv
    by (simp add: constants_10_010 comparison_constants isConstantInput_def constantValue_def
          typed_asNumber_def)
  have e2: "op_equals ?h (TypedInput ''a'' TYPE_STRING) (ConstantInput (JString ''abc'') True)
       = Inr (TypedInput (''(a.toLowerCase() === '' @ [CHR 0x22] @ ''abc'' @ [CHR 0x22] @
                          ''.toLowerCase())'') TYPE_BOOLEAN)"
    using typed_input_never_string_compare [where h = ?h and l = "TypedInput ''a'' TYPE_STRING"
        and r = "ConstantInput (JString ''abc'') True"] inv
    by (simp add: comparison_constants lowercase_compare_def typed_asString_def)
  have l1: "op_less ?h (VariableInput 1) (TypedInput ''a'' TYPE_BOOLEAN)
       = Inr (lowercase_compare ?h ''<'' (VariableInput 1) (TypedInput ''a'' TYPE_BOOLEAN))"
    using typed_input_never_string_compare [where h = ?h and l = "VariableInput 1"
        and r = "TypedInput ''a'' TYPE_BOOLEAN"] inv var
    by simp
  have g1: "op_greater ?h (TypedInput ''a'' TYPE_STRING) (TypedInput ''b'' TYPE_STRING)
       = Inr (TypedInput ''compareGreaterThan(a, b)'' TYPE_BOOLEAN)"
    using typed_input_never_string_compare [where h = ?h and l = "TypedInput ''a'' TYPE_STRING"
        and r = "TypedInput ''b'' TYPE_STRING"] inv
    by simp
  from inv var e1 e2 l1 g1 d1 show ?thesis by blast
qed

section \<open>The frame stack\<close>

lemma isLastBlockInLoop_from_upto:
  "n \<le> length fs \<Longrightarrow>
   isLastBlockInLoop_from fs (int n - 1) =
     (\<exists>i<n. isLoop (fs ! i) \<and> (\<forall>j. i \<le> j \<and> j < n \<longrightarrow> isLastBlock (fs ! j)))"
proof (induction n)
  case 0
  show ?case by (subst isLastBlockInLoop_from.simps) simp
next
  case (Suc n)
  then have IH: "isLastBlockInLoop_from fs (int n - 1) =
     (\<exists>i<n. isLoop (fs ! i) \<and> (\<forall>j. i \<le> j \<and> j < n \<longrightarrow> isLastBlock (fs ! j)))"
    by simp
  have unfold: "isLastBlockInLoop_from fs (int (Suc n) - 1) =
      (if \<not> isLastBlock (fs ! n) then False
       else if isLoop (fs ! n) then True
       else isLastBlockInLoop_from fs (int n - 1))"
    by (subst isLastBlockInLoop_from.simps) (simp add: Let_def)
  show ?case
  proof (cases "isLastBlock (fs ! n)")
    case False
    then have "\<not> (\<exists>i<Suc n. isLoop (fs ! i) \<and> (\<forall>j. i \<le> j \<and> j < Suc n \<longrightarrow> isLastBlock (fs ! j)))"
      by (metis less_Suc_eq_le lessI)
    with False unfold show ?thesis by simp
  next
    case last: True
    show ?thesis
    proof (cases "isLoop (fs ! n)")
      case True
      with last have "\<exists>i<Suc n. isLoop (fs ! i) \<and> (\<forall>j. i \<le> j \<and> j < Suc n \<longrightarrow> isLastBlock (fs ! j))"
        by (intro exI [of _ n]) (auto simp: less_Suc_eq)
      with True last unfold show ?thesis by simp
    next
      case False
      have "(\<exists>i<Suc n. isLoop (fs ! i) \<and> (\<forall>j. i \<le> j \<and> j < Suc n \<longrightarrow> isLastBlock (fs ! j)))
            = (\<exists>i<n. isLoop (fs ! i) \<and> (\<forall>j. i \<le> j \<and> j < n \<longrightarrow> isLastBlock (fs ! j)))"
        using False last by (auto simp: less_Suc_eq)
      with False last unfold IH show ?thesis by simp
    qed
  qed
qed

text \<open>
  C2, as stated: scanning from the innermost frame outward, \<^verbatim>\<open>isLastBlockInLoop\<close> is true
  if the first frame whose is-last-block flag is false is a loop frame. At the first of
  two blocks of a loop body that frame is the loop frame itself, and the function is false.
\<close>

theorem isLastBlockInLoop_first_block_of_loop:
  "spec_isLastBlockInLoop first_block_of_loop \<and> \<not> isLastBlockInLoop first_block_of_loop"
  by code_simp

text \<open>
  C2, amended: \<^verbatim>\<open>isLastBlockInLoop\<close> is true if and only if some frame is a loop frame and
  the is-last-block flag is true in it and in every frame inside it: scanning from the
  innermost frame outward, a loop frame is reached before any frame whose flag is false,
  the loop frame included. That is, the current block ends the body of an enclosing loop.
\<close>

theorem isLastBlockInLoop_iff:
  "isLastBlockInLoop g \<longleftrightarrow>
     (\<exists>i<length (frames g). isLoop (frames g ! i)
        \<and> (\<forall>j. i \<le> j \<and> j < length (frames g) \<longrightarrow> isLastBlock (frames g ! j)))"
  unfolding isLastBlockInLoop_def by (rule isLastBlockInLoop_from_upto) simp

theorem isLastBlockInLoop_iff_witness:
  "isLoop (frames last_block_of_loop ! 1)
   \<and> isLastBlock (frames last_block_of_loop ! 1)
   \<and> isLastBlock (frames last_block_of_loop ! 2)
   \<and> isLastBlockInLoop last_block_of_loop"
proof -
  have f: "frames last_block_of_loop =
      [\<lparr>isLoop = False, isLastBlock = False\<rparr>, \<lparr>isLoop = True, isLastBlock = True\<rparr>,
       \<lparr>isLoop = False, isLastBlock = True\<rparr>]"
    by (simp add: last_block_of_loop_def)
  have a: "isLoop (frames last_block_of_loop ! 1)"
    and b: "isLastBlock (frames last_block_of_loop ! 1)"
    and c: "isLastBlock (frames last_block_of_loop ! 2)"
    by (simp_all add: f)
  have "\<forall>j. 1 \<le> j \<and> j < length (frames last_block_of_loop)
          \<longrightarrow> isLastBlock (frames last_block_of_loop ! j)"
  proof (intro allI impI)
    fix j assume "1 \<le> j \<and> j < length (frames last_block_of_loop)"
    then have "j = 1 \<or> j = 2" by (auto simp: f)
    with b c show "isLastBlock (frames last_block_of_loop ! j)" by auto
  qed
  with a have "\<exists>i<length (frames last_block_of_loop). isLoop (frames last_block_of_loop ! i)
        \<and> (\<forall>j. i \<le> j \<and> j < length (frames last_block_of_loop)
              \<longrightarrow> isLastBlock (frames last_block_of_loop ! j))"
    by (intro exI [of _ 1]) (simp add: f)
  then have "isLastBlockInLoop last_block_of_loop"
    by (rule iffD2 [OF isLastBlockInLoop_iff])
  with a b c show ?thesis by simp
qed

section \<open>Properties of the generator\<close>

subsection \<open>Lowering keeps the script header\<close>

lemma same_header_refl [simp]: "same_header g g"
  by (simp add: same_header_def)

lemma same_header_trans: "same_header g g1 \<Longrightarrow> same_header g1 g2 \<Longrightarrow> same_header g g2"
  by (simp add: same_header_def)

lemma same_header_updates [simp]:
  "same_header g (g'\<lparr>source := s\<rparr>) = same_header g g'"
  "same_header (g\<lparr>source := s\<rparr>) g' = same_header g g'"
  "same_header g (g'\<lparr>frames := fs\<rparr>) = same_header g g'"
  "same_header (g\<lparr>frames := fs\<rparr>) g' = same_header g g'"
  "same_header g (g'\<lparr>heap := h\<rparr>) = same_header g g'"
  "same_header g (resetVariableInputs g') = same_header g g'"
  "same_header (resetVariableInputs g) g' = same_header g g'"
  "same_header g (pushFrame g' f) = same_header g g'"
  "same_header (pushFrame g f) g' = same_header g g'"
  "same_header g (popFrame g') = same_header g g'"
  "same_header g (requestRedraw g') = same_header g g'"
  "same_header (requestRedraw g) g' = same_header g g'"
  "same_header g (retire g') = same_header g g'"
  by (simp_all add: same_header_def resetVariableInputs_def pushFrame_def popFrame_def
        requestRedraw_def retire_def)

lemma yielded_header: "yielded g = Inr g' \<Longrightarrow> same_header g g'"
  by (auto simp: yielded_def split: if_splits)

lemma yieldNotWarp_header: "yieldNotWarp g = Inr g' \<Longrightarrow> same_header g g'"
  by (auto simp: yieldNotWarp_def split: if_splits dest!: yielded_header)

lemma yieldStuckOrNotWarp_header: "yieldStuckOrNotWarp g = Inr g' \<Longrightarrow> same_header g g'"
  by (auto simp: yieldStuckOrNotWarp_def split: if_splits dest!: yielded_header)

lemma yieldLoop_header: "yieldLoop g = Inr g' \<Longrightarrow> same_header g g'"
  by (auto simp: yieldLoop_def split: if_splits dest: yieldNotWarp_header yieldStuckOrNotWarp_header)

lemma localVariables_next_header: "localVariables_next g = (n, g') \<Longrightarrow> same_header g g'"
  by (auto simp: localVariables_next_def same_header_def)

lemma evaluateOnce_header: "evaluateOnce g s = (n, g') \<Longrightarrow> same_header g g'"
  by (auto simp: evaluateOnce_def same_header_def Let_def split: option.splits)

lemma referenceVariable_header: "referenceVariable g v = (n, g') \<Longrightarrow> same_header g g'"
  by (auto simp: referenceVariable_def split: if_splits dest: evaluateOnce_header)

lemma descendVariable_header: "descendVariable g v = (a, g') \<Longrightarrow> same_header g g'"
  by (auto simp: descendVariable_def Let_def same_header_def split: option.splits prod.splits
        dest!: referenceVariable_header)

lemmas step_headers = yielded_header yieldNotWarp_header yieldStuckOrNotWarp_header yieldLoop_header
  localVariables_next_header descendVariable_header

lemma defined_Inr: "defined r = Inr (i, g') \<longleftrightarrow> r = Inr (Some i, g')"
  by (auto simp: defined_def split: sum.splits option.splits prod.splits)




lemma header_fields [simp]:
  "script (requestRedraw g) = script g" "procedures (requestRedraw g) = procedures g"
  "isWarp (requestRedraw g) = isWarp g" "isProcedure (requestRedraw g) = isProcedure g"
  "warpTimer (requestRedraw g) = warpTimer g"
  "script (resetVariableInputs g) = script g" "procedures (resetVariableInputs g) = procedures g"
  "isWarp (resetVariableInputs g) = isWarp g" "isProcedure (resetVariableInputs g) = isProcedure g"
  "warpTimer (resetVariableInputs g) = warpTimer g"
  "script (pushFrame g f) = script g" "procedures (pushFrame g f) = procedures g"
  "isWarp (pushFrame g f) = isWarp g" "isProcedure (pushFrame g f) = isProcedure g"
  "warpTimer (pushFrame g f) = warpTimer g"
  "script (popFrame g) = script g" "procedures (popFrame g) = procedures g"
  "isWarp (popFrame g) = isWarp g" "isProcedure (popFrame g) = isProcedure g"
  "warpTimer (popFrame g) = warpTimer g"
  "script (retire g) = script g" "procedures (retire g) = procedures g"
  "isWarp (retire g) = isWarp g" "isProcedure (retire g) = isProcedure g"
  "warpTimer (retire g) = warpTimer g"
  by (simp_all add: resetVariableInputs_def pushFrame_def popFrame_def requestRedraw_def retire_def)

lemma descendArguments_header:
  assumes IH: "\<And>e g r g'. e \<in> set es \<Longrightarrow> descendInput g e = Inr (r, g') \<Longrightarrow> same_header g g'"
  shows "descendArguments g es = Inr (r, g') \<Longrightarrow> same_header g g'"
  using IH
proof (induction es arbitrary: g r)
  case Nil
  then show ?case by simp
next
  case (Cons a as)
  from Cons.prems(1) obtain i g1 ss where
    1: "descendInput g a = Inr (Some i, g1)" and 2: "descendArguments g1 as = Inr (ss, g')"
    by (auto simp: defined_Inr Let_def split: sum.splits prod.splits)
  from 1 have "same_header g g1" by (rule Cons.prems(2) [rotated]) simp
  moreover from 2 have "same_header g1 g'" by (rule Cons.IH) (auto intro: Cons.prems(2))
  ultimately show ?case by (rule same_header_trans)
qed

lemma descendInputRecord_from_header:
  assumes IH: "\<And>kv g r g'. kv \<in> set kvs \<Longrightarrow> descendInput g (snd kv) = Inr (r, g') \<Longrightarrow> same_header g g'"
  shows "descendInputRecord_from g res kvs = Inr (r, g') \<Longrightarrow> same_header g g'"
  using IH
proof (induction kvs arbitrary: g res)
  case Nil
  then show ?case by simp
next
  case (Cons kv rest)
  from Cons.prems(1) obtain i g1 res1 where
    1: "descendInput g (snd kv) = Inr (Some i, g1)"
    and 2: "descendInputRecord_from g1 res1 rest = Inr (r, g')"
    by (auto simp: defined_Inr Let_def split: sum.splits prod.splits)
  from 1 have "same_header g g1" by (rule Cons.prems(2) [rotated]) simp
  moreover from 2 have "same_header g1 g'" by (rule Cons.IH) (auto intro: Cons.prems(2))
  ultimately show ?case by (rule same_header_trans)
qed

lemma descendStack_from_header:
  assumes IH: "\<And>s g g'. s \<in> set nodes \<Longrightarrow> descendStackedBlock g s = Inr g' \<Longrightarrow> same_header g g'"
  shows "descendStack_from g idx nodes = Inr g' \<Longrightarrow> same_header g g'"
  using IH
proof (induction nodes arbitrary: g)
  case Nil
  then show ?case by simp
next
  case (Cons node rest)
  from Cons.prems(1) obtain g1 where
    1: "descendStackedBlock (g\<lparr>frames := setIsLastBlock idx (rest = []) (frames g)\<rparr>) node = Inr g1"
    and 2: "descendStack_from g1 idx rest = Inr g'"
    by (auto split: sum.splits)
  from 1 have "same_header (g\<lparr>frames := setIsLastBlock idx (rest = []) (frames g)\<rparr>) g1"
    by (rule Cons.prems(2) [rotated]) simp
  then have "same_header g g1" by simp
  moreover from 2 have "same_header g1 g'" by (rule Cons.IH) (auto intro: Cons.prems(2))
  ultimately show ?case by (rule same_header_trans)
qed

lemma descendStack_header:
  assumes IH: "\<And>s g g'. s \<in> set nodes \<Longrightarrow> descendStackedBlock g s = Inr g' \<Longrightarrow> same_header g g'"
  shows "descendStack g nodes f = Inr g' \<Longrightarrow> same_header g g'"
proof -
  assume a: "descendStack g nodes f = Inr g'"
  then obtain g1 where
    1: "descendStack_from (pushFrame (resetVariableInputs g) f) (length (frames g)) nodes = Inr g1"
    and 2: "g' = popFrame (resetVariableInputs g1)"
    by (auto split: sum.splits)
  from 1 have "same_header (pushFrame (resetVariableInputs g) f) g1"
    by (rule descendStack_from_header [rotated]) (rule IH)
  with 2 show ?thesis by simp
qed


lemma ProceduresCallExpr_steps:
  assumes a: "descendInput g (ProceduresCallExpr ty code variant args) = Inr (r, g')"
    and args: "\<And>g r g'. descendArguments g args = Inr (r, g') \<Longrightarrow> same_header g g'"
  shows "\<exists>pd. procedures g variant = Some pd
           \<and> (if p_stack pd = None then r = None \<and> g' = g
                else r \<noteq> None \<and> same_header g g' \<and> variableInputs g' = Map.empty)"
proof -
  from a obtain pd where pd: "procedures g variant = Some pd"
    by (cases "procedures g variant") simp_all
  show ?thesis
  proof (cases "p_stack pd = None")
    case True
    with a pd show ?thesis by simp
  next
    case False
    let ?pre = "if \<not> isWarp g \<and> Some code = s_procedureCode (script g) then yieldNotWarp g else Inr g"
    from a pd False obtain g1 where g1: "?pre = Inr g1"
      by (cases ?pre) simp_all
    then have s1: "same_header g g1"
      by (auto split: if_splits dest: yieldNotWarp_header)
    let ?arg = "if p_arguments pd \<noteq> [] then descendArguments g1 args else Inr ([], g1)"
    from a pd False g1 have ny: "\<not> (p_yields pd \<and> \<not> s_yields (script g1))"
      by (simp split: if_splits)
    from a pd False g1 ny obtain as g2 where g2: "?arg = Inr (as, g2)"
      by (cases ?arg) (auto simp: Let_def)
    then have s2: "same_header g1 g2"
      by (auto split: if_splits dest: args)
    from a pd False g1 ny g2 have g': "g' = resetVariableInputs g2" and r: "r \<noteq> None"
      by (auto simp: Let_def split: option.splits)
    from s1 s2 have "same_header g g2" by (rule same_header_trans)
    with g' have "same_header g g'" by simp
    moreover from g' have "variableInputs g' = Map.empty" by (simp add: resetVariableInputs_def)
    ultimately show ?thesis using pd False r by auto
  qed
qed

lemma ProceduresCall_steps:
  assumes a: "descendStackedBlock g (ProceduresCall ty code variant args) = Inr g'"
    and args: "\<And>g r g'. descendArguments g args = Inr (r, g') \<Longrightarrow> same_header g g'"
  shows "\<exists>pd. procedures g variant = Some pd
           \<and> (if p_stack pd = None then g' = g
                else same_header g g' \<and> variableInputs g' = Map.empty)"
proof -
  from a obtain pd where pd: "procedures g variant = Some pd"
    by (cases "procedures g variant") simp_all
  show ?thesis
  proof (cases "p_stack pd = None")
    case True
    with a pd show ?thesis by simp
  next
    case False
    let ?pre = "if \<not> isWarp g \<and> Some code = s_procedureCode (script g) then yieldNotWarp g else Inr g"
    from a pd False obtain g1 where g1: "?pre = Inr g1"
      by (cases ?pre) simp_all
    then have s1: "same_header g g1"
      by (auto split: if_splits dest: yieldNotWarp_header)
    from a pd False g1 have ny: "\<not> (p_yields pd \<and> \<not> s_yields (script g1))"
      by (simp split: if_splits)
    let ?g2 = "g1\<lparr>source := source g1 @ (if p_yields pd then ''yield* '' else []) @
                 ''thread.procedures['' @ dq @ sanitize variant @ dq @ ''](''\<rparr>"
    define arg where "arg =
               (if p_arguments pd \<noteq> []
                then (case descendArguments ?g2 args of
                        Inl e \<Rightarrow> Inl e
                      | Inr (as, g3) \<Rightarrow> Inr (g3\<lparr>source := source g3 @ join as '',''\<rparr>))
                else Inr ?g2)"
    have a': "(case arg of
                 Inl e \<Rightarrow> Inl e
               | Inr g4 \<Rightarrow>
                   let g5 = g4\<lparr>source := source g4 @ '');'' @ nl\<rparr>
                   in if ty = ''hat'' then Inl (Error ''custom hat blocks are not suported'')
                      else Inr (resetVariableInputs g5)) = Inr g'"
      using a pd False g1 ny unfolding arg_def
      by (simp add: Let_def split del: if_split cong: if_cong)
    then obtain g4 where g4: "arg = Inr g4"
      by (cases arg) simp_all
    then have "same_header ?g2 g4"
      unfolding arg_def by (auto split: if_splits sum.splits prod.splits dest!: args)
    then have s2: "same_header g1 g4" by simp
    from a' g4 have g': "g' = resetVariableInputs (g4\<lparr>source := source g4 @ '');'' @ nl\<rparr>)"
      by (auto simp: Let_def split: if_splits)
    from s1 s2 have "same_header g g4" by (rule same_header_trans)
    with g' have "same_header g g'" by simp
    moreover from g' have "variableInputs g' = Map.empty" by (simp add: resetVariableInputs_def)
    ultimately show ?thesis using pd False by auto
  qed
qed

lemma descend_header:
  "\<forall>g r g'. descendInput g e = Inr (r, g') \<longrightarrow> same_header g g'"
  "\<forall>g g'. descendStackedBlock g s = Inr g' \<longrightarrow> same_header g g'"
proof (induction e and s)
  case (Constant v)
  show ?case by simp
next
  case (VarGet v)
  show ?case by (auto split: prod.splits dest: descendVariable_header)
next
  case (OpAdd l r)
  then show ?case
    by (auto simp: same_header_def defined_Inr Let_def split: sum.splits prod.splits)
next
  case (OpEquals l r)
  then show ?case
    by (auto simp: same_header_def split: sum.splits prod.splits option.splits)
next
  case (OpGreater l r)
  then show ?case
    by (auto simp: same_header_def split: sum.splits prod.splits option.splits)
next
  case (OpLess l r)
  then show ?case
    by (auto simp: same_header_def split: sum.splits prod.splits option.splits)
next
  case (BroadcastFunction b)
  then show ?case
    by (auto simp: same_header_def defined_Inr Let_def split: sum.splits prod.splits
        dest!: step_headers)
next
  case (ProceduresCallExpr ty code variant args)
  then have IH: "\<And>e g r g'. e \<in> set args \<Longrightarrow> descendInput g e = Inr (r, g') \<Longrightarrow> same_header g g'"
    by blast
  have args: "same_header g g'" if "descendArguments g args = Inr (r, g')" for g r g'
    using that by (rule descendArguments_header [rotated]) (rule IH)
  show ?case
  proof (intro allI impI)
    fix g r g'
    assume a: "descendInput g (ProceduresCallExpr ty code variant args) = Inr (r, g')"
    have "\<exists>pd. procedures g variant = Some pd
           \<and> (if p_stack pd = None then r = None \<and> g' = g
                else r \<noteq> None \<and> same_header g g' \<and> variableInputs g' = Map.empty)"
      by (rule ProceduresCallExpr_steps [OF a]) (rule args)
    then show "same_header g g'"
      by (auto split: if_splits)
  qed
next
  case (InlineStackOutput code)
  then have IH: "\<And>s g g'. s \<in> set code \<Longrightarrow> descendStackedBlock g s = Inr g' \<Longrightarrow> same_header g g'"
    by blast
  have stack: "same_header g g'" if "descendStack g code f = Inr g'" for g f g'
    using that by (rule descendStack_header [rotated]) (rule IH)
  show ?case
    by (auto simp: same_header_def Let_def simp del: descendStack.simps
        split: sum.splits dest!: stack)
next
  case (VarSet v val)
  then show ?case
    by (auto simp: same_header_def Let_def split: sum.splits prod.splits option.splits if_splits
        dest!: step_headers)
next
  case (ControlWait seconds)
  then show ?case
    by (auto simp: same_header_def defined_Inr Let_def split: sum.splits prod.splits
        dest!: step_headers)
next
  case (ControlRepeat count body)
  then have IH: "\<And>s g g'. s \<in> set body \<Longrightarrow> descendStackedBlock g s = Inr g' \<Longrightarrow> same_header g g'"
    by blast
  from ControlRepeat have IH1: "\<And>g r g'. descendInput g count = Inr (r, g') \<Longrightarrow> same_header g g'"
    by blast
  have stack: "same_header g g'" if "descendStack g body f = Inr g'" for g f g'
    using that by (rule descendStack_header [rotated]) (rule IH)
  show ?case
    by (auto simp: same_header_def defined_Inr Let_def simp del: descendStack.simps
        split: sum.splits prod.splits dest!: step_headers IH1 stack)
next
  case (EventBroadcast b)
  then show ?case
    by (auto simp: same_header_def defined_Inr Let_def split: sum.splits prod.splits)
next
  case (EventBroadcastAndWait b)
  then show ?case
    by (auto simp: same_header_def defined_Inr Let_def split: sum.splits prod.splits
        dest!: step_headers)
next
  case (ProceduresCall ty code variant args)
  then have IH: "\<And>e g r g'. e \<in> set args \<Longrightarrow> descendInput g e = Inr (r, g') \<Longrightarrow> same_header g g'"
    by blast
  have args: "same_header g g'" if "descendArguments g args = Inr (r, g')" for g r g'
    using that by (rule descendArguments_header [rotated]) (rule IH)
  show ?case
  proof (intro allI impI)
    fix g g'
    assume a: "descendStackedBlock g (ProceduresCall ty code variant args) = Inr g'"
    have "\<exists>pd. procedures g variant = Some pd
           \<and> (if p_stack pd = None then g' = g
                else same_header g g' \<and> variableInputs g' = Map.empty)"
      by (rule ProceduresCall_steps [OF a]) (rule args)
    then show "same_header g g'"
      by (auto split: if_splits)
  qed
next
  case (AddonsCall code blockId arguments)
  then have IH: "\<And>kv g r g'. kv \<in> set arguments \<Longrightarrow> descendInput g (snd kv) = Inr (r, g') \<Longrightarrow> same_header g g'"
    by (auto simp: snds.simps)
  have inputs: "same_header g g'" if "descendInputRecord_from g res arguments = Inr (r, g')" for g res r g'
    using that by (rule descendInputRecord_from_header [rotated]) (rule IH)
  show ?case
    by (auto simp: same_header_def Let_def split: sum.splits prod.splits dest!: inputs)
next
  case ControlStopAll
  show ?case by (simp add: same_header_def)
qed

subsection \<open>\<^verbatim>\<open>control.wait\<close>\<close>

lemma descendInput_isWarp:
  "descendInput g e = Inr (r, g') \<Longrightarrow> isWarp g' = isWarp g \<and> script g' = script g"
  using descend_header(1) [of e] by (auto simp: same_header_def)

text \<open>
  C8, amended: when lowering \<^verbatim>\<open>control.wait\<close> succeeds, the script is marked as yielding
  and the text added to the source is, in this order: the assignment of \<^verbatim>\<open>thread.timer\<close>,
  the duration in a new local variable, the request for a redraw, then, in a script that
  is not in warp mode, one \<^verbatim>\<open>yield\<close> whatever the seconds input is, then the loop on the
  elapsed time whose body is the stuck-or-not-warp yield, then \<^verbatim>\<open>thread.timer = null\<close>. In
  warp mode nothing is emitted between the redraw and the loop.
\<close>

theorem control_wait_emission:
  assumes "descendStackedBlock g (ControlWait seconds) = Inr g'"
  shows "s_yields (script g)
    \<and> (\<exists>secs. source g' =
          source g @ ''thread.timer = timer();'' @ nl @
          ''var '' @ pool_next ''a'' (localVariables g) @ '' = Math.max(0, 1000 * '' @ secs @ '');'' @ nl @
          ''runtime.requestRedraw();'' @ nl @
          (if isWarp g then [] else ''yield;'' @ nl) @
          ''while (thread.timer.timeElapsed() < '' @ pool_next ''a'' (localVariables g) @ '') {'' @ nl @
          (if isWarp g then ''if (isStuck()) yield;'' @ nl else ''yield;'' @ nl) @
          ''}'' @ nl @ ''thread.timer = null;'' @ nl)"
proof -
  let ?d = "pool_next ''a'' (localVariables g)"
  let ?g2 = "g\<lparr>localVariables := Suc (localVariables g),
               source := source g @ ''thread.timer = timer();'' @ nl\<rparr>"
  from assms obtain i g3 where d: "descendInput ?g2 seconds = Inr (Some i, g3)"
    by (auto simp: localVariables_next_def Let_def defined_Inr split: sum.splits prod.splits)
  from descendInput_isWarp [OF d] have w: "isWarp g3 = isWarp g" and s: "script g3 = script g"
    by simp_all
  let ?g5 = "requestRedraw (g3\<lparr>source := source ?g2 @ ''var '' @ ?d @ '' = Math.max(0, 1000 * '' @
                               asNumber (heap g3) i @ '');'' @ nl\<rparr>)"
  from assms d obtain g6 where y1: "yieldNotWarp ?g5 = Inr g6"
    by (auto simp: localVariables_next_def Let_def defined_def split: sum.splits)
  let ?g7 = "g6\<lparr>source := source g6 @ ''while (thread.timer.timeElapsed() < '' @ ?d @ '') {'' @ nl\<rparr>"
  from assms d y1 obtain g8 where y2: "yieldStuckOrNotWarp ?g7 = Inr g8"
    by (auto simp: localVariables_next_def Let_def defined_def split: sum.splits)
  from assms d y1 y2 have g': "g' = g8\<lparr>source := source g8 @ ''}'' @ nl @ ''thread.timer = null;'' @ nl\<rparr>"
    by (auto simp: localVariables_next_def Let_def defined_def)
  from y1 have w6: "isWarp g6 = isWarp g" and s6: "script g6 = script g"
    using yieldNotWarp_header [OF y1] w s by (simp_all add: same_header_def)
  from y1 w have src6: "source g6 = source ?g5 @ (if isWarp g then [] else ''yield;'' @ nl)"
    by (auto simp: yieldNotWarp_def yielded_def resetVariableInputs_def split: if_splits)
  from y2 w6 s6 have src8: "source g8 = source ?g7 @ (if isWarp g then ''if (isStuck()) yield;'' @ nl else ''yield;'' @ nl)"
    and yl: "s_yields (script g)"
    by (auto simp: yieldStuckOrNotWarp_def yielded_def resetVariableInputs_def split: if_splits)
  have "source g' =
          source g @ ''thread.timer = timer();'' @ nl @
          ''var '' @ ?d @ '' = Math.max(0, 1000 * '' @ asNumber (heap g3) i @ '');'' @ nl @
          ''runtime.requestRedraw();'' @ nl @
          (if isWarp g then [] else ''yield;'' @ nl) @
          ''while (thread.timer.timeElapsed() < '' @ ?d @ '') {'' @ nl @
          (if isWarp g then ''if (isStuck()) yield;'' @ nl else ''yield;'' @ nl) @
          ''}'' @ nl @ ''thread.timer = null;'' @ nl"
    unfolding g' by (simp add: src8 src6 requestRedraw_def)
  with yl show ?thesis by blast
qed

text \<open>
  C8, as stated: lowering \<^verbatim>\<open>control.wait\<close> yields at least once before the loop, also for
  the constant 0. In a warp script the text for the constant 0 has no \<^verbatim>\<open>yield\<close> before the
  loop, and the only one inside it is guarded by \<^verbatim>\<open>isStuck()\<close>.
\<close>

theorem control_wait_warp_no_yield:
  "emitted (descendStackedBlock (new_JSGenerator warp_script no_procedures []) (ControlWait (Constant zero)))
     = Some (''thread.timer = timer();'' @ nl @
             ''var a0 = Math.max(0, 1000 * 0);'' @ nl @
             ''runtime.requestRedraw();'' @ nl @
             ''while (thread.timer.timeElapsed() < a0) {'' @ nl @
             ''if (isStuck()) yield;'' @ nl @
             ''}'' @ nl @
             ''thread.timer = null;'' @ nl)"
  by code_simp

text \<open>The text for the constant 0 in a script that is not in warp mode.\<close>

theorem control_wait_emission_witness:
  "emitted (descendStackedBlock (new_JSGenerator yielding_script no_procedures []) (ControlWait (Constant zero)))
     = Some (''thread.timer = timer();'' @ nl @
             ''var a0 = Math.max(0, 1000 * 0);'' @ nl @
             ''runtime.requestRedraw();'' @ nl @
             ''yield;'' @ nl @
             ''while (thread.timer.timeElapsed() < a0) {'' @ nl @
             ''yield;'' @ nl @
             ''}'' @ nl @
             ''thread.timer = null;'' @ nl)
   \<and> s_yields (script (new_JSGenerator yielding_script no_procedures []))"
proof -
  let ?G = "new_JSGenerator yielding_script no_procedures []"
  let ?r = "descendStackedBlock ?G (ControlWait (Constant zero))"
  have e: "emitted ?r
     = Some (''thread.timer = timer();'' @ nl @
             ''var a0 = Math.max(0, 1000 * 0);'' @ nl @
             ''runtime.requestRedraw();'' @ nl @
             ''yield;'' @ nl @
             ''while (thread.timer.timeElapsed() < a0) {'' @ nl @
             ''yield;'' @ nl @
             ''}'' @ nl @
             ''thread.timer = null;'' @ nl)"
    by code_simp
  then obtain g' where "?r = Inr g'"
    by (cases ?r) (simp_all add: emitted_def)
  from control_wait_emission [OF this] have "s_yields (script ?G)" by simp
  with e show ?thesis by simp
qed

subsection \<open>Resets of the variable tracker\<close>

lemma descendArguments_same_header:
  "descendArguments g args = Inr (r, g') \<Longrightarrow> same_header g g'"
proof -
  assume a: "descendArguments g args = Inr (r, g')"
  have IH: "same_header g g'" if "descendInput g e = Inr (r, g')" for e g r g'
    using that descend_header(1) [of e] by blast
  from a show ?thesis
    by (rule descendArguments_header [rotated]) (rule IH)
qed

lemma localVariables_next_variableInputs:
  "localVariables_next g = (n, g') \<Longrightarrow> variableInputs g' = variableInputs g"
  by (auto simp: localVariables_next_def)

lemma yielded_resets: "yielded g = Inr g' \<Longrightarrow> variableInputs g' = Map.empty"
  by (auto simp: yielded_def resetVariableInputs_def split: if_splits)

text \<open>
  C5, amended: \<^verbatim>\<open>variableInputs\<close> has no entry in the state in which the first block of a
  stack descent is lowered; after a stack descent; after lowering a call (statement or
  expression) of a procedure whose body is not empty; after lowering \<^verbatim>\<open>event.broadcast\<close>,
  \<^verbatim>\<open>event.broadcastAndWait\<close> or the broadcast function; and after \<^verbatim>\<open>yielded\<close>,
  \<^verbatim>\<open>yieldStuckOrNotWarp\<close>, and \<^verbatim>\<open>yieldNotWarp\<close> outside warp mode, the functions that
  insert a \<^verbatim>\<open>yield\<close> statement.
\<close>

theorem variable_tracker_resets:
  "variableInputs (pushFrame (resetVariableInputs g) f) = Map.empty
   \<and> descendStack g (node # rest) f =
       (case descendStackedBlock
               ((pushFrame (resetVariableInputs g) f)\<lparr>frames :=
                   setIsLastBlock (length (frames g)) (rest = [])
                     (frames (pushFrame (resetVariableInputs g) f))\<rparr>) node of
          Inl e \<Rightarrow> Inl e
        | Inr g1 \<Rightarrow>
            (case descendStack_from g1 (length (frames g)) rest of
               Inl e \<Rightarrow> Inl e
             | Inr g2 \<Rightarrow> Inr (popFrame (resetVariableInputs g2))))
   \<and> (descendStack g nodes f = Inr g' \<longrightarrow> variableInputs g' = Map.empty)
   \<and> (descendStackedBlock g (ProceduresCall ty code variant args) = Inr g'
        \<and> procedures g variant = Some pd \<and> p_stack pd \<noteq> None
        \<longrightarrow> variableInputs g' = Map.empty)
   \<and> (descendInput g (ProceduresCallExpr ty code variant args) = Inr (Some i, g')
        \<longrightarrow> variableInputs g' = Map.empty)
   \<and> (descendStackedBlock g (EventBroadcast b) = Inr g' \<longrightarrow> variableInputs g' = Map.empty)
   \<and> (descendStackedBlock g (EventBroadcastAndWait b) = Inr g' \<longrightarrow> variableInputs g' = Map.empty)
   \<and> (descendInput g (BroadcastFunction b) = Inr (r, g') \<longrightarrow> variableInputs g' = Map.empty)
   \<and> (yielded g = Inr g' \<longrightarrow> variableInputs g' = Map.empty)
   \<and> (yieldStuckOrNotWarp g = Inr g' \<longrightarrow> variableInputs g' = Map.empty)
   \<and> (\<not> isWarp g \<and> yieldNotWarp g = Inr g' \<longrightarrow> variableInputs g' = Map.empty)"
proof -
  have enter: "variableInputs (pushFrame (resetVariableInputs g) f) = Map.empty"
    by (simp add: pushFrame_def resetVariableInputs_def)
  have first: "descendStack g (node # rest) f =
       (case descendStackedBlock
               ((pushFrame (resetVariableInputs g) f)\<lparr>frames :=
                   setIsLastBlock (length (frames g)) (rest = [])
                     (frames (pushFrame (resetVariableInputs g) f))\<rparr>) node of
          Inl e \<Rightarrow> Inl e
        | Inr g1 \<Rightarrow>
            (case descendStack_from g1 (length (frames g)) rest of
               Inl e \<Rightarrow> Inl e
             | Inr g2 \<Rightarrow> Inr (popFrame (resetVariableInputs g2))))"
    by (simp split: sum.splits)
  have leave: "variableInputs g' = Map.empty" if "descendStack g nodes f = Inr g'"
    using that by (auto simp: popFrame_def resetVariableInputs_def split: sum.splits)
  have call: "variableInputs g' = Map.empty"
    if a: "descendStackedBlock g (ProceduresCall ty code variant args) = Inr g'"
      and pd: "procedures g variant = Some pd" "p_stack pd \<noteq> None"
  proof -
    have "\<exists>pd. procedures g variant = Some pd
           \<and> (if p_stack pd = None then g' = g
                else same_header g g' \<and> variableInputs g' = Map.empty)"
      by (rule ProceduresCall_steps [OF a]) (rule descendArguments_same_header)
    with pd show ?thesis by auto
  qed
  have callE: "variableInputs g' = Map.empty"
    if a: "descendInput g (ProceduresCallExpr ty code variant args) = Inr (Some i, g')"
  proof -
    have "\<exists>pd. procedures g variant = Some pd
           \<and> (if p_stack pd = None then Some i = None \<and> g' = g
                else Some i \<noteq> None \<and> same_header g g' \<and> variableInputs g' = Map.empty)"
      by (rule ProceduresCallExpr_steps [OF a]) (rule descendArguments_same_header)
    then show ?thesis by (auto split: if_splits)
  qed
  have bc: "variableInputs g' = Map.empty" if "descendStackedBlock g (EventBroadcast b) = Inr g'"
    using that
    by (auto simp: Let_def defined_Inr resetVariableInputs_def split: sum.splits prod.splits)
  have bw: "variableInputs g' = Map.empty" if "descendStackedBlock g (EventBroadcastAndWait b) = Inr g'"
    using that
    by (auto simp: Let_def defined_Inr split: sum.splits prod.splits dest: yielded_resets)
  have bf: "variableInputs g' = Map.empty" if "descendInput g (BroadcastFunction b) = Inr (r, g')"
    using that
    by (auto simp: Let_def defined_Inr resetVariableInputs_def
          split: sum.splits prod.splits dest!: localVariables_next_variableInputs)
  have y1: "variableInputs g' = Map.empty" if "yielded g = Inr g'"
    using that by (rule yielded_resets)
  have y2: "variableInputs g' = Map.empty" if "yieldStuckOrNotWarp g = Inr g'"
    using that by (auto simp: yieldStuckOrNotWarp_def dest: yielded_resets)
  have y3: "variableInputs g' = Map.empty" if "\<not> isWarp g" "yieldNotWarp g = Inr g'"
    using that by (auto simp: yieldNotWarp_def dest: yielded_resets)
  from enter first leave call callE bc bw bf y1 y2 y3 show ?thesis by blast
qed

text \<open>
  C5, as stated: the tracker has no entry after lowering a procedure call or inserting a
  yield. After \<^verbatim>\<open>var.set\<close> of \<open>x\<close> the tracker holds \<open>x\<close>; it still does after lowering a
  call of a procedure with an empty body, for which no code is generated, and after
  lowering \<^verbatim>\<open>addons.call\<close>, which writes a \<^verbatim>\<open>yield*\<close> into the source.
\<close>

theorem variable_tracker_kept:
  "(case descendStackedBlock (new_JSGenerator yielding_script empty_procedure [])
           (VarSet variable_x (Constant (JString ''5''))) of
      Inl e \<Rightarrow> False
    | Inr g1 \<Rightarrow>
        variableInputs g1 ''x'' = Some 0
        \<and> (case descendStackedBlock g1 (ProceduresCall [] ''p'' ''p'' []) of
             Inl e \<Rightarrow> False
           | Inr g2 \<Rightarrow> variableInputs g2 ''x'' = Some 0)
        \<and> (case descendStackedBlock g1 (AddonsCall ''c'' ''id'' []) of
             Inl e \<Rightarrow> False
           | Inr g2 \<Rightarrow>
               variableInputs g2 ''x'' = Some 0
               \<and> source g2 = source g1 @ ''yield* executeInCompatibilityLayer({}, runtime.getAddonBlock('' @
                    dq @ ''c'' @ dq @ '').callback, false, false, '' @ dq @ ''id'' @ dq @ '');'' @ nl))"
  by code_simp

text \<open>
  A stack descent, a call of a procedure with a body, a broadcast-and-wait and
  \<^verbatim>\<open>yieldNotWarp\<close>, each in a new generator for a yielding script.
\<close>

theorem variable_tracker_resets_witness:
  "(case descendStack (new_JSGenerator yielding_script one_procedure [])
           [VarSet variable_x (Constant (JString ''5''))] (new_Frame False) of
      Inl e \<Rightarrow> False | Inr g' \<Rightarrow> variableInputs g' = Map.empty)
   \<and> (case descendStackedBlock (new_JSGenerator yielding_script one_procedure [])
           (ProceduresCall [] ''p'' ''p'' []) of
      Inl e \<Rightarrow> False | Inr g' \<Rightarrow> variableInputs g' = Map.empty)
   \<and> (case descendStackedBlock (new_JSGenerator yielding_script one_procedure [])
           (EventBroadcastAndWait (Constant (JString ''m''))) of
      Inl e \<Rightarrow> False | Inr g' \<Rightarrow> variableInputs g' = Map.empty)
   \<and> (case yieldNotWarp (new_JSGenerator yielding_script one_procedure []) of
      Inl e \<Rightarrow> False | Inr g' \<Rightarrow> variableInputs g' = Map.empty)"
proof -
  let ?G = "new_JSGenerator yielding_script one_procedure []"
  let ?r1 = "descendStack ?G [VarSet variable_x (Constant (JString ''5''))] (new_Frame False)"
  let ?r2 = "descendStackedBlock ?G (ProceduresCall [] ''p'' ''p'' [])"
  let ?r3 = "descendStackedBlock ?G (EventBroadcastAndWait (Constant (JString ''m'')))"
  let ?r4 = "yieldNotWarp ?G"
  have "\<not> isl ?r1" by code_simp
  then obtain g1 where g1: "?r1 = Inr g1" by (cases ?r1) simp_all
  have "\<not> isl ?r2" by code_simp
  then obtain g2 where g2: "?r2 = Inr g2" by (cases ?r2) simp_all
  have "\<not> isl ?r3" by code_simp
  then obtain g3 where g3: "?r3 = Inr g3" by (cases ?r3) simp_all
  have "\<not> isl ?r4" by code_simp
  then obtain g4 where g4: "?r4 = Inr g4" by (cases ?r4) simp_all
  have pd: "procedures ?G ''p'' = Some \<lparr>p_stack = Some [], p_yields = False, p_arguments = []\<rparr>"
    by (simp add: new_JSGenerator_def one_procedure_def)
  have nw: "\<not> isWarp ?G"
    by (simp add: new_JSGenerator_def yielding_script_def plain_script_def)
  from variable_tracker_resets [of ?G _ _ _ "[VarSet variable_x (Constant (JString ''5''))]" g1]
    g1 have 1: "variableInputs g1 = Map.empty" by blast
  from variable_tracker_resets [where g = ?G and g' = g2 and ty = "[]" and code = "''p''"
      and variant = "''p''" and args = "[]"
      and pd = "\<lparr>p_stack = Some [], p_yields = False, p_arguments = []\<rparr>"] g2 pd
  have 2: "variableInputs g2 = Map.empty" by simp
  from variable_tracker_resets [where g = ?G and g' = g3 and b = "Constant (JString ''m'')"] g3
  have 3: "variableInputs g3 = Map.empty" by blast
  from variable_tracker_resets [where g = ?G and g' = g4] g4 nw
  have 4: "variableInputs g4 = Map.empty" by blast
  from 1 2 3 4 show ?thesis unfolding g1 g2 g3 g4 by simp
qed

subsection \<open>Yields and the \<^verbatim>\<open>yields\<close> flag of the script\<close>

text \<open>The functions that insert a \<^verbatim>\<open>yield\<close> statement throw when the script is not marked.\<close>

lemma yield_functions_check:
  assumes "\<not> s_yields (script g)"
  shows "yielded g = Inl (Error ''Script yielded but is not marked as yielding.'')"
    and "yieldStuckOrNotWarp g = Inl (Error ''Script yielded but is not marked as yielding.'')"
    and "\<not> isWarp g \<Longrightarrow>
           yieldNotWarp g = Inl (Error ''Script yielded but is not marked as yielding.'')"
  using assms by (simp_all add: yielded_def yieldStuckOrNotWarp_def yieldNotWarp_def)

text \<open>
  C4 says that a \<^verbatim>\<open>yield\<close> or \<^verbatim>\<open>yield*\<close> is written only when \<^verbatim>\<open>script.yields\<close> is true, and
  that compilation throws otherwise. For the script whose only block sets a variable to a
  broadcast function, and whose header does not declare \<^verbatim>\<open>yields\<close>, \<open>compile\<close> does not
  throw: it returns a factory of a plain function with \<^verbatim>\<open>yield*\<close> and \<^verbatim>\<open>yield\<close> in its body.
\<close>

theorem broadcastFunction_yields_unchecked:
  "compile (new_JSGenerator broadcast_script no_procedures []) new_pools =
     Inr (broadcast_factory,
          \<lparr>factoryNameVariablePool = 1, functionNameVariablePool = 1,
           generatorNameVariablePool = 0\<rparr>)
   \<and> emits_yield broadcast_factory
   \<and> \<not> s_yields broadcast_script"
  by code_simp

section \<open>The interpolator\<close>

text \<open>
  C9. Every call of \<^verbatim>\<open>updateDrawableDirectionScale\<close> that \<^verbatim>\<open>interpolateTargets\<close> makes is
  for a target whose costume is the one of the snapshot. The scale it passes is the
  target's current scale, or the midpoint of the current scale and the snapshot's on each
  axis; it is the midpoint only when the signs of both axes match between snapshot and
  current scale and the absolute change of the first axis is less than 100. When the sign
  of either axis differs, the scale passed is the current one: no scale interpolation.
\<close>

theorem scale_interpolation_guard:
  assumes "updateDrawableDirectionScale i dir sc \<in> set (interpolateTargets rt)"
  shows "\<exists>t \<in> set (targets rt). \<exists>d.
           t_interpolationData t = Some d \<and> i = t_drawableID t
           \<and> i_costume d = t_currentCostume t
           \<and> (sc = snd (t_rendered t)
                \<or> sc = ((fst (snd (t_rendered t)) + fst (i_scale d)) / 2,
                         (snd (snd (t_rendered t)) + snd (i_scale d)) / 2)
                  \<and> sgn (fst (snd (t_rendered t))) = sgn (fst (i_scale d))
                  \<and> sgn (snd (snd (t_rendered t))) = sgn (snd (i_scale d))
                  \<and> \<bar>fst (snd (t_rendered t)) - fst (i_scale d)\<bar> < 100)
           \<and> (sgn (fst (snd (t_rendered t))) \<noteq> sgn (fst (i_scale d))
                \<or> sgn (snd (snd (t_rendered t))) \<noteq> sgn (snd (i_scale d))
                \<longrightarrow> sc = snd (t_rendered t))"
proof -
  from assms obtain getAABB t where t: "t \<in> set (targets rt)"
    and c: "updateDrawableDirectionScale i dir sc \<in> set (interpolateTarget getAABB t)"
    by (auto simp: interpolateTargets_def split: option.splits)
  from c obtain d where d: "t_interpolationData t = Some d"
    by (cases "t_interpolationData t") (simp_all add: interpolateTarget_def)
  with c have c': "updateDrawableDirectionScale i dir sc \<in> set (interpolateDirectionScale t d)"
    by (auto simp: interpolateTarget_def interpolatePosition_def interpolateGhost_def Let_def
          split: if_splits)
  from c' have "i = t_drawableID t \<and> i_costume d = t_currentCostume t
           \<and> (sc = snd (t_rendered t)
                \<or> sc = ((fst (snd (t_rendered t)) + fst (i_scale d)) / 2,
                         (snd (snd (t_rendered t)) + snd (i_scale d)) / 2)
                  \<and> sgn (fst (snd (t_rendered t))) = sgn (fst (i_scale d))
                  \<and> sgn (snd (snd (t_rendered t))) = sgn (snd (i_scale d))
                  \<and> \<bar>fst (snd (t_rendered t)) - fst (i_scale d)\<bar> < 100)
           \<and> (sgn (fst (snd (t_rendered t))) \<noteq> sgn (fst (i_scale d))
                \<or> sgn (snd (snd (t_rendered t))) \<noteq> sgn (snd (i_scale d))
                \<longrightarrow> sc = snd (t_rendered t))"
    by (auto simp: interpolateDirectionScale_def Let_def split: if_splits)
  with t d show ?thesis by blast
qed

text \<open>A target that grew from 100 to 120 is drawn at 110.\<close>

lemma grown_calls:
  "interpolateTargets grown_runtime = [updateDrawableDirectionScale 1 90 (110, 110)]"
  by (simp add: interpolateTargets_def grown_runtime_def grown_target_def interpolateTarget_def
        interpolatePosition_def interpolateGhost_def interpolateDirectionScale_def Let_def)

theorem scale_interpolation_guard_witness:
  "updateDrawableDirectionScale 1 90 (110, 110) \<in> set (interpolateTargets grown_runtime)
   \<and> t_currentCostume grown_target = 0
   \<and> sgn (120 :: real) = sgn 100 \<and> \<bar>120 - 100 :: real\<bar> < 100"
proof -
  have m: "updateDrawableDirectionScale 1 90 (110, 110) \<in> set (interpolateTargets grown_runtime)"
    by (simp add: grown_calls)
  from scale_interpolation_guard [OF m]
  have "t_currentCostume grown_target = 0 \<and> sgn (120 :: real) = sgn 100 \<and> \<bar>120 - 100 :: real\<bar> < 100"
    by (auto simp: grown_runtime_def grown_target_def)
  with m show ?thesis by simp
qed

end
